theory Spec2Isabelle
  imports Complex_Main "HOL-Library.AList"
begin

section \<open>Shared data: responses and errors of the HTTP transport\<close>

text \<open>
  The fields of an \<open>AxiosResponse\<close> and an \<open>AxiosError\<close> that the request pipeline reads.
  Times are milliseconds as \<open>Date.now()\<close> returns them; every synchronous call of the
  source reads the clock through one parameter \<open>now\<close>.
\<close>

record AxiosResponse =
  resp_status :: int
  resp_data :: string
  resp_etag :: "string option"
  resp_last_modified :: "string option"

record AxiosError =
  err_code :: "string option"
  err_response :: "AxiosResponse option"
  err_message :: string

section \<open>Circuit breaker (utils/circuitBreaker.ts)\<close>

datatype CircuitState = Closed | Open | HalfOpen

record CircuitBreakerConfig =
  cb_enabled :: bool
  failureThreshold :: nat
  successThreshold :: nat
  cb_timeout :: int
  resetTimeout :: int
  monitoringPeriod :: int
  errorFilter :: "(AxiosError \<Rightarrow> bool) option"

text \<open>
  The private fields of class \<open>CircuitBreaker\<close>. \<open>resetTimer\<close> holds the time at which
  the pending \<open>setTimeout\<close> callback is due, \<open>None\<close> for \<open>undefined\<close>.
\<close>

record CircuitBreaker =
  cb_state :: CircuitState
  failureCount :: nat
  successCount :: nat
  lastFailureTime :: "int option"
  lastSuccessTime :: "int option"
  nextAttemptTime :: "int option"
  totalRequests :: nat
  totalFailures :: nat
  totalSuccesses :: nat
  failureHistory :: "int list"
  resetTimer :: "int option"

definition new_CircuitBreaker :: CircuitBreaker where
  "new_CircuitBreaker =
     \<lparr>cb_state = Closed, failureCount = 0, successCount = 0, lastFailureTime = None,
      lastSuccessTime = None, nextAttemptTime = None, totalRequests = 0, totalFailures = 0,
      totalSuccesses = 0, failureHistory = [], resetTimer = None\<rparr>"

text \<open>JavaScript truthiness of an optional number: \<open>undefined\<close> and \<open>0\<close> are falsy.\<close>

fun truthy_num :: "int option \<Rightarrow> bool" where
  "truthy_num None = False"
| "truthy_num (Some t) = (t \<noteq> 0)"

text \<open>\<open>canExecute()\<close>: the admission check; it returns the answer and the new state.\<close>

definition canExecute :: "CircuitBreakerConfig \<Rightarrow> int \<Rightarrow> CircuitBreaker \<Rightarrow> bool \<times> CircuitBreaker" where
  "canExecute cfg now s =
     (if \<not> cb_enabled cfg then (True, s)
      else case cb_state s of
        Closed \<Rightarrow> (True, s)
      | Open \<Rightarrow>
          (case nextAttemptTime s of
             None \<Rightarrow> (False, s)
           | Some t \<Rightarrow>
               if truthy_num (Some t) \<and> now \<ge> t
               then (True, s\<lparr>cb_state := HalfOpen, successCount := 0\<rparr>)
               else (False, s))
      | HalfOpen \<Rightarrow> (True, s))"

text \<open>\<open>open()\<close>: clears a pending reset timer and sets a new one.\<close>

definition open_breaker :: "CircuitBreakerConfig \<Rightarrow> int \<Rightarrow> CircuitBreaker \<Rightarrow> CircuitBreaker" where
  "open_breaker cfg now s =
     s\<lparr>cb_state := Open, nextAttemptTime := Some (now + cb_timeout cfg),
       resetTimer := Some (now + resetTimeout cfg)\<rparr>"

text \<open>The callback of the reset timer: \<open>this.failureCount = 0\<close>.\<close>

definition resetTimer_fires :: "CircuitBreaker \<Rightarrow> CircuitBreaker" where
  "resetTimer_fires s = s\<lparr>failureCount := 0\<rparr>"

definition close_breaker :: "CircuitBreaker \<Rightarrow> CircuitBreaker" where
  "close_breaker s =
     s\<lparr>cb_state := Closed, failureCount := 0, successCount := 0, nextAttemptTime := None,
       resetTimer := None\<rparr>"

definition onSuccess :: "CircuitBreakerConfig \<Rightarrow> int \<Rightarrow> CircuitBreaker \<Rightarrow> CircuitBreaker" where
  "onSuccess cfg now s0 =
     (let s = s0\<lparr>totalSuccesses := totalSuccesses s0 + 1, lastSuccessTime := Some now\<rparr>
      in if cb_state s = HalfOpen then
           (let s1 = s\<lparr>successCount := successCount s + 1\<rparr>
            in if successCount s1 \<ge> successThreshold cfg then close_breaker s1 else s1)
         else if cb_state s = Closed then s\<lparr>failureCount := 0\<rparr>
         else s)"

text \<open>An error is counted unless an \<open>errorFilter\<close> is configured and rejects it.\<close>

definition counted :: "CircuitBreakerConfig \<Rightarrow> AxiosError \<Rightarrow> bool" where
  "counted cfg e = (case errorFilter cfg of None \<Rightarrow> True | Some f \<Rightarrow> f e)"

definition onFailure :: "CircuitBreakerConfig \<Rightarrow> int \<Rightarrow> AxiosError \<Rightarrow> CircuitBreaker \<Rightarrow> CircuitBreaker" where
  "onFailure cfg now e s0 =
     (if \<not> counted cfg e then s0
      else
        (let s = s0\<lparr>totalFailures := totalFailures s0 + 1, lastFailureTime := Some now,
                     failureCount := failureCount s0 + 1,
                     failureHistory := failureHistory s0 @ [now]\<rparr>
         in if cb_state s = Closed then
              (if failureCount s \<ge> failureThreshold cfg then open_breaker cfg now s else s)
            else if cb_state s = HalfOpen then open_breaker cfg now s
            else s))"

text \<open>
  \<open>execute(operation)\<close> in its two synchronous halves: the admission before the
  operation is awaited, and the recording of its outcome when it settles.
\<close>

datatype admission = Run | Rejected CircuitState

definition execute_admit :: "CircuitBreakerConfig \<Rightarrow> int \<Rightarrow> CircuitBreaker \<Rightarrow> admission \<times> CircuitBreaker" where
  "execute_admit cfg now s =
     (if \<not> cb_enabled cfg then (Run, s)
      else
        (let s1 = s\<lparr>totalRequests := totalRequests s + 1\<rparr>;
             (ok, s2) = canExecute cfg now s1
         in if \<not> ok then (Rejected (cb_state s2), s2) else (Run, s2)))"

definition execute_settle ::
  "CircuitBreakerConfig \<Rightarrow> int \<Rightarrow> AxiosError + AxiosResponse \<Rightarrow> CircuitBreaker \<Rightarrow> CircuitBreaker" where
  "execute_settle cfg now outcome s =
     (if \<not> cb_enabled cfg then s
      else case outcome of Inr r \<Rightarrow> onSuccess cfg now s | Inl e \<Rightarrow> onFailure cfg now e s)"

text \<open>Consecutive recorded successes, each with its clock reading.\<close>

fun record_successes :: "CircuitBreakerConfig \<Rightarrow> int list \<Rightarrow> CircuitBreaker \<Rightarrow> CircuitBreaker" where
  "record_successes cfg [] s = s"
| "record_successes cfg (t # ts) s = record_successes cfg ts (onSuccess cfg t s)"

text \<open>The public overrides \<open>reset\<close>, \<open>forceOpen\<close>, \<open>forceClose\<close>, \<open>forceHalfOpen\<close>.\<close>

definition reset_breaker :: "CircuitBreaker \<Rightarrow> CircuitBreaker" where
  "reset_breaker s =
     s\<lparr>cb_state := Closed, failureCount := 0, successCount := 0, lastFailureTime := None,
       lastSuccessTime := None, nextAttemptTime := None, failureHistory := [],
       resetTimer := None\<rparr>"

definition forceOpen :: "CircuitBreakerConfig \<Rightarrow> int \<Rightarrow> CircuitBreaker \<Rightarrow> CircuitBreaker" where
  "forceOpen cfg now s = s\<lparr>cb_state := Open, nextAttemptTime := Some (now + cb_timeout cfg)\<rparr>"

definition forceClose :: "CircuitBreaker \<Rightarrow> CircuitBreaker" where
  "forceClose s =
     s\<lparr>cb_state := Closed, failureCount := 0, successCount := 0, nextAttemptTime := None\<rparr>"

definition forceHalfOpen :: "CircuitBreaker \<Rightarrow> CircuitBreaker" where
  "forceHalfOpen s = s\<lparr>cb_state := HalfOpen, successCount := 0, nextAttemptTime := None\<rparr>"

definition cleanupFailureHistory :: "CircuitBreakerConfig \<Rightarrow> int \<Rightarrow> CircuitBreaker \<Rightarrow> CircuitBreaker" where
  "cleanupFailureHistory cfg now s =
     s\<lparr>failureHistory := filter (\<lambda>timestamp. timestamp > now - monitoringPeriod cfg) (failureHistory s)\<rparr>"

text \<open>
  The reset timer's callback as the event loop runs it: once, at or after its due time,
  and only if the timer was not cleared; afterwards no callback is pending.
\<close>

definition resetTimer_callback :: "int \<Rightarrow> CircuitBreaker \<Rightarrow> CircuitBreaker" where
  "resetTimer_callback now s =
     (case resetTimer s of
        None \<Rightarrow> s
      | Some due \<Rightarrow> if due \<le> now then (resetTimer_fires s)\<lparr>resetTimer := None\<rparr> else s)"

text \<open>
  What happens to a breaker, one event after the other: an outcome is recorded, the
  timer callback comes up, or an operator calls \<open>forceClose()\<close>.
\<close>

datatype breaker_event = Failed int AxiosError | Succeeded int | TimerRuns int | ForceClose

fun breaker_step :: "CircuitBreakerConfig \<Rightarrow> breaker_event \<Rightarrow> CircuitBreaker \<Rightarrow> CircuitBreaker" where
  "breaker_step cfg (Failed t e) s = onFailure cfg t e s"
| "breaker_step cfg (Succeeded t) s = onSuccess cfg t s"
| "breaker_step cfg (TimerRuns t) s = resetTimer_callback t s"
| "breaker_step cfg ForceClose s = forceClose s"

fun run_events :: "CircuitBreakerConfig \<Rightarrow> breaker_event list \<Rightarrow> CircuitBreaker \<Rightarrow> CircuitBreaker" where
  "run_events cfg [] s = s"
| "run_events cfg (ev # evs) s = run_events cfg evs (breaker_step cfg ev s)"

text \<open>A counted failure or a timer callback; and the failures among some events.\<close>

fun failure_or_timer :: "CircuitBreakerConfig \<Rightarrow> breaker_event \<Rightarrow> bool" where
  "failure_or_timer cfg (Failed t e) = counted cfg e"
| "failure_or_timer cfg (TimerRuns t) = True"
| "failure_or_timer cfg ev = False"

fun is_failure :: "breaker_event \<Rightarrow> bool" where
  "is_failure (Failed t e) = True"
| "is_failure ev = False"

text \<open>
  The states a breaker object can be in: it is constructed Closed, and every method and
  timer callback of the class runs at a clock reading after the epoch (\<open>0 < now\<close>).
\<close>

inductive reachable :: "CircuitBreakerConfig \<Rightarrow> CircuitBreaker \<Rightarrow> bool" for cfg where
  r_new: "reachable cfg new_CircuitBreaker"
| r_admit: "reachable cfg s \<Longrightarrow> 0 < now \<Longrightarrow> reachable cfg (snd (execute_admit cfg now s))"
| r_settle: "reachable cfg s \<Longrightarrow> 0 < now \<Longrightarrow> reachable cfg (execute_settle cfg now outcome s)"
| r_canExecute: "reachable cfg s \<Longrightarrow> 0 < now \<Longrightarrow> reachable cfg (snd (canExecute cfg now s))"
| r_reset: "reachable cfg s \<Longrightarrow> reachable cfg (reset_breaker s)"
| r_forceOpen: "reachable cfg s \<Longrightarrow> 0 < now \<Longrightarrow> reachable cfg (forceOpen cfg now s)"
| r_forceClose: "reachable cfg s \<Longrightarrow> reachable cfg (forceClose s)"
| r_forceHalfOpen: "reachable cfg s \<Longrightarrow> reachable cfg (forceHalfOpen s)"
| r_timer: "reachable cfg s \<Longrightarrow> reachable cfg (resetTimer_fires s)"
| r_cleanup: "reachable cfg s \<Longrightarrow> 0 < now \<Longrightarrow> reachable cfg (cleanupFailureHistory cfg now s)"

text \<open>An Open breaker carries the time of its next attempt, a time after the epoch.\<close>

definition open_inv :: "CircuitBreaker \<Rightarrow> bool" where
  "open_inv s = (cb_state s = Open \<longrightarrow> (case nextAttemptTime s of None \<Rightarrow> False | Some t \<Rightarrow> 0 < t))"

text \<open>Concrete inputs for the breaker: the README's thresholds scaled down, and a 500 error.\<close>

definition cb_cfg_example :: CircuitBreakerConfig where
  "cb_cfg_example =
     \<lparr>cb_enabled = True, failureThreshold = 2, successThreshold = 2, cb_timeout = 60000,
      resetTimeout = 30000, monitoringPeriod = 10000, errorFilter = None\<rparr>"

definition response_example :: "int \<Rightarrow> AxiosResponse" where
  "response_example st =
     \<lparr>resp_status = st, resp_data = ''ok'', resp_etag = None, resp_last_modified = None\<rparr>"

definition http_error :: "int \<Rightarrow> AxiosError" where
  "http_error st =
     \<lparr>err_code = None, err_response = Some (response_example st), err_message = ''failed''\<rparr>"

section \<open>Cache store (utils/cache.ts)\<close>

datatype CacheStorage = Memory | LocalStorage | IndexedDB

record CacheConfig =
  cache_enabled :: bool
  storage :: CacheStorage
  cache_ttl :: int
  maxSize :: int
  shouldCache_hook :: "(AxiosResponse \<Rightarrow> bool) option"

record CacheEntry =
  ce_key :: string
  ce_data :: AxiosResponse
  ce_timestamp :: int
  ce_ttl :: int
  ce_etag :: "string option"
  ce_lastModified :: "string option"

text \<open>
  The three places an entry can live in. \<open>memoryCache\<close> is the manager's own \<open>Map\<close>
  (insertion-ordered: a new key goes last, an old key keeps its place).
  \<open>localStorage\<close> is the browser's store, from item name to the entry written there as
  JSON; \<open>indexedDB\<close> is the object store \<open>cache\<close> of database \<open>axios-cache\<close>, keyed by the
  entry's \<open>key\<close> field. Both exist only where \<open>window\<close> is defined, which the parameter
  \<open>win\<close> says; their requests are taken to succeed, and an entry is read back as it was
  written, which JSON and the structured clone ensure for responses of plain data.
\<close>

record CacheManager =
  memoryCache :: "(string \<times> CacheEntry) list"
  localStorage :: "(string \<times> CacheEntry) list"
  indexedDB :: "(string \<times> CacheEntry) list"

definition new_CacheManager :: CacheManager where
  "new_CacheManager = \<lparr>memoryCache = [], localStorage = [], indexedDB = []\<rparr>"

definition getEntry :: "CacheConfig \<Rightarrow> bool \<Rightarrow> string \<Rightarrow> CacheManager \<Rightarrow> CacheEntry option" where
  "getEntry cfg win k s =
     (case storage cfg of
        Memory \<Rightarrow> map_of (memoryCache s) k
      | LocalStorage \<Rightarrow> if win then map_of (localStorage s) (''cache_'' @ k) else None
      | IndexedDB \<Rightarrow> if win then map_of (indexedDB s) k else None)"

definition setEntry :: "CacheConfig \<Rightarrow> bool \<Rightarrow> string \<Rightarrow> CacheEntry \<Rightarrow> CacheManager \<Rightarrow> CacheManager" where
  "setEntry cfg win k entry s =
     (case storage cfg of
        Memory \<Rightarrow> s\<lparr>memoryCache := AList.update k entry (memoryCache s)\<rparr>
      | LocalStorage \<Rightarrow>
          if win then s\<lparr>localStorage := AList.update (''cache_'' @ k) entry (localStorage s)\<rparr> else s
      | IndexedDB \<Rightarrow>
          if win then s\<lparr>indexedDB := AList.update (ce_key entry) entry (indexedDB s)\<rparr> else s)"

definition delete_entry :: "CacheConfig \<Rightarrow> bool \<Rightarrow> string \<Rightarrow> CacheManager \<Rightarrow> CacheManager" where
  "delete_entry cfg win k s =
     (case storage cfg of
        Memory \<Rightarrow> s\<lparr>memoryCache := AList.delete k (memoryCache s)\<rparr>
      | LocalStorage \<Rightarrow>
          if win then s\<lparr>localStorage := AList.delete (''cache_'' @ k) (localStorage s)\<rparr> else s
      | IndexedDB \<Rightarrow>
          if win then s\<lparr>indexedDB := AList.delete k (indexedDB s)\<rparr> else s)"

definition isExpired :: "int \<Rightarrow> CacheEntry \<Rightarrow> bool" where
  "isExpired now entry = (now - ce_timestamp entry > ce_ttl entry)"

definition shouldCache :: "CacheConfig \<Rightarrow> AxiosResponse \<Rightarrow> bool" where
  "shouldCache cfg response =
     (case shouldCache_hook cfg of
        Some f \<Rightarrow> f response
      | None \<Rightarrow> resp_status response \<ge> 200 \<and> resp_status response < 300)"

text \<open>
  \<open>enforceMaxSize()\<close> reads and prunes \<open>this.memoryCache\<close>, whatever the configured
  storage is. The sort is the stable sort of the entries by timestamp.
\<close>

definition enforceMaxSize :: "CacheConfig \<Rightarrow> CacheManager \<Rightarrow> CacheManager" where
  "enforceMaxSize cfg s =
     (if int (length (memoryCache s)) > maxSize cfg then
        (let entries = sort_key (\<lambda>kv. ce_timestamp (snd kv)) (memoryCache s);
             toRemove = take (nat (int (length (memoryCache s)) - maxSize cfg)) entries
         in s\<lparr>memoryCache := fold (\<lambda>kv m. AList.delete (fst kv) m) toRemove (memoryCache s)\<rparr>)
      else s)"

definition cache_get :: "CacheConfig \<Rightarrow> bool \<Rightarrow> int \<Rightarrow> string \<Rightarrow> CacheManager \<Rightarrow> AxiosResponse option \<times> CacheManager" where
  "cache_get cfg win now k s =
     (if \<not> cache_enabled cfg then (None, s)
      else case getEntry cfg win k s of
        None \<Rightarrow> (None, s)
      | Some entry \<Rightarrow>
          if isExpired now entry then (None, delete_entry cfg win k s)
          else (Some (ce_data entry), s))"

definition cache_set :: "CacheConfig \<Rightarrow> bool \<Rightarrow> int \<Rightarrow> string \<Rightarrow> AxiosResponse \<Rightarrow> CacheManager \<Rightarrow> CacheManager" where
  "cache_set cfg win now k response s =
     (if \<not> cache_enabled cfg then s
      else if \<not> shouldCache cfg response then s
      else
        (let entry = \<lparr>ce_key = k, ce_data = response, ce_timestamp = now, ce_ttl = cache_ttl cfg,
                       ce_etag = resp_etag response,
                       ce_lastModified = resp_last_modified response\<rparr>
         in enforceMaxSize cfg (setEntry cfg win k entry s)))"

text \<open>Concrete cache configurations: ten milliseconds to live; room for one entry.\<close>

definition cache_cfg_example :: "CacheStorage \<Rightarrow> int \<Rightarrow> CacheConfig" where
  "cache_cfg_example st n =
     \<lparr>cache_enabled = True, storage = st, cache_ttl = 10, maxSize = n, shouldCache_hook = None\<rparr>"

section \<open>Retry policy (utils/retry.ts)\<close>

text \<open>
  JavaScript numbers are taken as reals. \<open>retryDelayFunction\<close> and \<open>retryCondition\<close> are
  the optional hooks of \<open>RetryConfig\<close>.
\<close>

record RetryConfig =
  retry_enabled :: bool
  maxRetries :: nat
  retryDelay :: real
  retryCondition :: "(AxiosError \<Rightarrow> bool) option"
  retryDelayFunction :: "(nat \<Rightarrow> real) option"

definition shouldRetry :: "RetryConfig \<Rightarrow> AxiosError \<Rightarrow> bool" where
  "shouldRetry cfg error =
     (case retryCondition cfg of
        Some p \<Rightarrow> p error
      | None \<Rightarrow>
          if err_code error = Some ''ECONNABORTED'' \<or> err_code error = Some ''ETIMEDOUT'' then True
          else case err_response error of
            Some r \<Rightarrow> resp_status r \<ge> 500 \<or> resp_status r = 408 \<or> resp_status r = 429
          | None \<Rightarrow> True)"

text \<open>\<open>calculateDelay(attempt)\<close>; \<open>u\<close> is what \<open>Math.random()\<close> returned, a number in [0, 1).\<close>

definition calculateDelay :: "RetryConfig \<Rightarrow> real \<Rightarrow> nat \<Rightarrow> real" where
  "calculateDelay cfg u attempt =
     (case retryDelayFunction cfg of
        Some f \<Rightarrow> f attempt
      | None \<Rightarrow>
          (let baseDelay = retryDelay cfg;
               exponentialDelay = baseDelay * 2 ^ attempt;
               jitter = u * 0.1 * exponentialDelay
           in min (exponentialDelay + jitter) 30000))"

text \<open>
  What \<open>executeWithRetry\<close> throws: the last error, or \<open>undefined\<close> when the loop body never
  ran. It returns the outcome and the delays it waited, in order.
\<close>

datatype thrown = Thrown AxiosError | ThrownUndefined

text \<open>
  The \<open>for\<close> loop from \<open>attempt\<close> on. \<open>requestFn i\<close> is the outcome of the call made in
  iteration \<open>i\<close>, \<open>rnd i\<close> the random number drawn there.
\<close>

function retry_loop ::
  "RetryConfig \<Rightarrow> (nat \<Rightarrow> AxiosError + 'a) \<Rightarrow> (nat \<Rightarrow> real) \<Rightarrow> nat \<Rightarrow> AxiosError option \<Rightarrow> real list
     \<Rightarrow> (thrown + 'a) \<times> real list" where
  "retry_loop cfg requestFn rnd attempt lastError delays =
     (if attempt \<le> maxRetries cfg then
        (case requestFn attempt of
           Inr r \<Rightarrow> (Inr r, delays)
         | Inl e \<Rightarrow>
             if attempt = maxRetries cfg \<or> \<not> shouldRetry cfg e then (Inl (Thrown e), delays)
             else retry_loop cfg requestFn rnd (attempt + 1) (Some e)
                    (delays @ [calculateDelay cfg (rnd attempt) attempt]))
      else (case lastError of None \<Rightarrow> (Inl ThrownUndefined, delays)
            | Some e \<Rightarrow> (Inl (Thrown e), delays)))"
  by pat_completeness auto
termination
  by (relation "measure (\<lambda>(cfg, requestFn, rnd, attempt, lastError, delays). Suc (maxRetries cfg) - attempt)") auto

definition executeWithRetry ::
  "RetryConfig \<Rightarrow> (nat \<Rightarrow> AxiosError + 'a) \<Rightarrow> (nat \<Rightarrow> real) \<Rightarrow> (thrown + 'a) \<times> real list" where
  "executeWithRetry cfg requestFn rnd =
     (if \<not> retry_enabled cfg then
        (case requestFn 0 of Inr r \<Rightarrow> (Inr r, []) | Inl e \<Rightarrow> (Inl (Thrown e), []))
      else retry_loop cfg requestFn rnd 0 None [])"

text \<open>
  The retry condition in the words of the specification: a timeout or network error, or a
  response status in \<open>{408, 429} \<union> [500, 599]\<close>; a custom predicate replaces it.
\<close>

definition spec_retryable :: "RetryConfig \<Rightarrow> AxiosError \<Rightarrow> bool" where
  "spec_retryable cfg error =
     (case retryCondition cfg of
        Some p \<Rightarrow> p error
      | None \<Rightarrow>
          err_code error = Some ''ECONNABORTED'' \<or> err_code error = Some ''ETIMEDOUT'' \<or>
          err_response error = None \<or>
          (case err_response error of None \<Rightarrow> False
           | Some r \<Rightarrow> resp_status r = 408 \<or> resp_status r = 429 \<or>
               (500 \<le> resp_status r \<and> resp_status r \<le> 599)))"

text \<open>The default retry configuration of the interceptor: three retries, one second.\<close>

definition retry_cfg_example :: RetryConfig where
  "retry_cfg_example =
     \<lparr>retry_enabled = True, maxRetries = 3, retryDelay = 1000, retryCondition = None,
      retryDelayFunction = None\<rparr>"

text \<open>A transport that fails its first call with the given status and then answers 200.\<close>

definition fails_once :: "int \<Rightarrow> nat \<Rightarrow> AxiosError + AxiosResponse" where
  "fails_once st i = (if i = 0 then Inl (http_error st) else Inr (response_example 200))"

text \<open>A random source that always draws one half.\<close>

definition rnd_half :: "nat \<Rightarrow> real" where
  "rnd_half i = 1 / 2"

section \<open>Authentication handler (utils/auth.ts)\<close>

text \<open>
  The request descriptor. \<open>req_params\<close> and \<open>req_data\<close> hold the JSON text of a truthy value,
  \<open>None\<close> stands for a missing or falsy one; \<open>req_headers\<close> is the headers object, in the
  order of its properties.
\<close>

record AxiosRequestConfig =
  req_method :: "string option"
  req_url :: "string option"
  req_params :: "string option"
  req_data :: "string option"
  req_headers :: "(string \<times> string) list"

text \<open>
  The hooks of \<open>AuthConfig\<close> are user code. A hook that answers (\<open>getToken\<close>,
  \<open>getRefreshToken\<close>) is given by its answer, \<open>Inl\<close> when it throws; a hook that only acts
  is given by whether it is configured, and each call of it is written to a log together
  with the network calls. Without hooks the handler uses the browser's \<open>localStorage\<close>,
  which exists only where \<open>window\<close> does.
\<close>

datatype auth_event =
    Warn string
  | SetTokenHook string
  | RemoveTokenHook
  | OnTokenExpired
  | OnUnauthorized
  | Fetch string string
  | OnRefreshSuccess "string option"
  | OnRefreshFailed

record RefreshConfig =
  rt_enabled :: bool
  getRefreshToken_hook :: "string option option"
  refreshEndpoint :: "string option"
  has_onRefreshSuccess :: bool
  has_onRefreshFailed :: bool

record AuthConfig =
  auth_enabled :: bool
  tokenKey :: string
  tokenPrefix :: string
  getToken_hook :: "(string + string option) option"
  has_setToken :: bool
  has_removeToken :: bool
  has_onTokenExpired :: bool
  has_onUnauthorized :: bool
  refreshToken_cfg :: "RefreshConfig option"

record AuthWorld =
  has_window :: bool
  browser_store :: "(string \<times> string) list"
  auth_log :: "auth_event list"
  refreshCalls :: nat

text \<open>The two private fields of \<open>AuthHandler\<close>; a promise is named by a number.\<close>

record AuthHandler =
  isRefreshing :: bool
  refreshPromise :: "nat option"

definition new_AuthHandler :: AuthHandler where
  "new_AuthHandler = \<lparr>isRefreshing = False, refreshPromise = None\<rparr>"

text \<open>JavaScript truthiness of an optional string: \<open>null\<close> and the empty string are falsy.\<close>

fun truthy_str :: "string option \<Rightarrow> bool" where
  "truthy_str None = False"
| "truthy_str (Some t) = (t \<noteq> [])"

definition log_event :: "auth_event \<Rightarrow> AuthWorld \<Rightarrow> AuthWorld" where
  "log_event ev w = w\<lparr>auth_log := auth_log w @ [ev]\<rparr>"

definition getToken :: "AuthConfig \<Rightarrow> AuthWorld \<Rightarrow> string + string option" where
  "getToken cfg w =
     (case getToken_hook cfg of
        Some answer \<Rightarrow> answer
      | None \<Rightarrow> if has_window w then Inr (map_of (browser_store w) (tokenKey cfg)) else Inr None)"

definition setToken :: "AuthConfig \<Rightarrow> string \<Rightarrow> AuthWorld \<Rightarrow> AuthWorld" where
  "setToken cfg token w =
     (if has_setToken cfg then log_event (SetTokenHook token) w
      else if has_window w
        then w\<lparr>browser_store := AList.update (tokenKey cfg) token (browser_store w)\<rparr>
      else w)"

definition removeToken :: "AuthConfig \<Rightarrow> AuthWorld \<Rightarrow> AuthWorld" where
  "removeToken cfg w =
     (if has_removeToken cfg then log_event RemoveTokenHook w
      else if has_window w
        then w\<lparr>browser_store := AList.delete (tokenKey cfg) (browser_store w)\<rparr>
      else w)"

text \<open>
  \<open>addAuthHeader(config)\<close>: \<open>Inl\<close> would be a rejection of the promise it returns. The
  header object is the old one with \<open>Authorization\<close> set.
\<close>

definition addAuthHeader :: "AuthConfig \<Rightarrow> AuthWorld \<Rightarrow> AxiosRequestConfig \<Rightarrow> string + AxiosRequestConfig" where
  "addAuthHeader cfg w config =
     (if \<not> auth_enabled cfg then Inr config
      else case getToken cfg w of
        Inl thrown_by_lookup \<Rightarrow> Inr config
      | Inr token \<Rightarrow>
          if truthy_str token
          then Inr (config\<lparr>req_headers :=
                 AList.update ''Authorization'' (tokenPrefix cfg @ '' '' @ the token) (req_headers config)\<rparr>)
          else Inr config)"

definition getRefreshToken :: "AuthConfig \<Rightarrow> RefreshConfig \<Rightarrow> AuthWorld \<Rightarrow> string option" where
  "getRefreshToken cfg rc w =
     (case getRefreshToken_hook rc of
        Some answer \<Rightarrow> answer
      | None \<Rightarrow> if has_window w then map_of (browser_store w) (tokenKey cfg @ ''_refresh'') else None)"

text \<open>
  What the refresh endpoint does: the \<open>fetch\<close> (or reading its body) throws, or a reply
  arrives with its \<open>ok\<close> flag and the fields \<open>accessToken\<close> and \<open>token\<close> of its body.
\<close>

datatype fetch_reply = FetchThrows | FetchReply bool "string option" "string option"

datatype 'a pending = Settled 'a | AwaitingFetch

definition refresh_failed :: "RefreshConfig \<Rightarrow> AuthWorld \<Rightarrow> AuthWorld" where
  "refresh_failed rc w = (if has_onRefreshFailed rc then log_event OnRefreshFailed w else w)"

text \<open>
  \<open>performTokenRefresh()\<close> in two halves, before and after the network call; the handler
  is suspended in between, and other handlers may run then.
\<close>

definition performTokenRefresh_begin ::
  "AuthConfig \<Rightarrow> AuthWorld \<Rightarrow> (string + string option) pending \<times> AuthWorld" where
  "performTokenRefresh_begin cfg w0 =
     (let w = w0\<lparr>refreshCalls := refreshCalls w0 + 1\<rparr>
      in case refreshToken_cfg cfg of
        None \<Rightarrow> (Settled (Inr None), w)
      | Some rc \<Rightarrow>
          (let refreshToken = getRefreshToken cfg rc w
           in if \<not> truthy_str refreshToken
              then (Settled (Inl ''No refresh token available''), refresh_failed rc w)
              else (AwaitingFetch,
                    log_event (Fetch (if truthy_str (refreshEndpoint rc) then the (refreshEndpoint rc)
                                      else ''/auth/refresh'')
                                     (the refreshToken)) w)))"

definition performTokenRefresh_end ::
  "AuthConfig \<Rightarrow> fetch_reply \<Rightarrow> AuthWorld \<Rightarrow> (string + string option) \<times> AuthWorld" where
  "performTokenRefresh_end cfg reply w =
     (case refreshToken_cfg cfg of
        None \<Rightarrow> (Inr None, w)
      | Some rc \<Rightarrow>
          (case reply of
             FetchThrows \<Rightarrow> (Inl ''fetch failed'', refresh_failed rc w)
           | FetchReply ok accessToken token \<Rightarrow>
               if \<not> ok then (Inl ''Token refresh failed'', refresh_failed rc w)
               else
                 (let newToken = (if truthy_str accessToken then accessToken else token)
                  in (Inr newToken,
                      if has_onRefreshSuccess rc then log_event (OnRefreshSuccess newToken) w else w))))"

text \<open>
  \<open>refreshToken()\<close> up to its \<open>await\<close>: a caller that finds a refresh pending gets the
  pending promise, any other caller starts a refresh.
\<close>

datatype refresh_call = Joined nat | Started "(string + string option) pending"

definition refreshToken_begin ::
  "AuthConfig \<Rightarrow> AuthHandler \<Rightarrow> AuthWorld \<Rightarrow> refresh_call \<times> AuthHandler \<times> AuthWorld" where
  "refreshToken_begin cfg h w =
     (case refreshPromise h of
        Some p \<Rightarrow>
          if isRefreshing h then (Joined p, h, w)
          else (let (r, w1) = performTokenRefresh_begin cfg w
                in (Started r, h\<lparr>isRefreshing := True, refreshPromise := Some (refreshCalls w)\<rparr>, w1))
      | None \<Rightarrow>
          (let (r, w1) = performTokenRefresh_begin cfg w
           in (Started r, h\<lparr>isRefreshing := True, refreshPromise := Some (refreshCalls w)\<rparr>, w1)))"

text \<open>The \<open>finally\<close> block of \<open>refreshToken()\<close>.\<close>

definition refreshToken_finally :: "AuthHandler \<Rightarrow> AuthHandler" where
  "refreshToken_finally h = h\<lparr>isRefreshing := False, refreshPromise := None\<rparr>"

text \<open>The tail of \<open>handleUnauthorized\<close>: "If refresh failed or not enabled, handle token expiration".\<close>

definition tokenExpired :: "AuthConfig \<Rightarrow> AuthWorld \<Rightarrow> AuthWorld" where
  "tokenExpired cfg w = (if has_onTokenExpired cfg then log_event OnTokenExpired w else removeToken cfg w)"

definition refresh_enabled :: "AuthConfig \<Rightarrow> bool" where
  "refresh_enabled cfg = (case refreshToken_cfg cfg of None \<Rightarrow> False | Some rc \<Rightarrow> rt_enabled rc)"

text \<open>
  A handler either ran to its end or is suspended on a refresh; \<open>Suspended True\<close> when it
  started that refresh itself (and so runs the \<open>finally\<close> block of \<open>refreshToken()\<close> when
  resumed), \<open>Suspended False\<close> when it was handed a pending one.
\<close>

datatype progress = Done | Suspended bool

text \<open>
  What \<open>handleUnauthorized\<close> does once the refresh it waits for has settled with \<open>res\<close>
  (\<open>Inl\<close>: the refresh threw).
\<close>

definition handleUnauthorized_resume ::
  "AuthConfig \<Rightarrow> bool \<Rightarrow> string + string option \<Rightarrow> AuthHandler \<Rightarrow> AuthWorld \<Rightarrow> AuthHandler \<times> AuthWorld" where
  "handleUnauthorized_resume cfg started_it res h w =
     (let h1 = (if started_it then refreshToken_finally h else h)
      in case res of
        Inr newToken \<Rightarrow>
          if truthy_str newToken then (h1, setToken cfg (the newToken) w)
          else (h1, tokenExpired cfg w)
      | Inl err \<Rightarrow> (h1, tokenExpired cfg (log_event (Warn ''Token refresh failed:'') w)))"

text \<open>\<open>handleUnauthorized\<close> from its start to its end, or to its suspension.\<close>

definition handleUnauthorized_begin ::
  "AuthConfig \<Rightarrow> AuthHandler \<Rightarrow> AuthWorld \<Rightarrow> progress \<times> AuthHandler \<times> AuthWorld" where
  "handleUnauthorized_begin cfg h w =
     (if refresh_enabled cfg \<and> \<not> isRefreshing h then
        (case refreshToken_begin cfg h w of
           (Joined p, h1, w1) \<Rightarrow> (Suspended False, h1, w1)
         | (Started AwaitingFetch, h1, w1) \<Rightarrow> (Suspended True, h1, w1)
         | (Started (Settled res), h1, w1) \<Rightarrow>
             (let (h2, w2) = handleUnauthorized_resume cfg True res h1 w1 in (Done, h2, w2)))
      else (Done, h, tokenExpired cfg w))"

definition handleForbidden :: "AuthConfig \<Rightarrow> AuthWorld \<Rightarrow> AuthWorld" where
  "handleForbidden cfg w = (if has_onUnauthorized cfg then log_event OnUnauthorized w else w)"

text \<open>
  \<open>handleAuthError(error)\<close>: it returns, or it is suspended inside \<open>handleUnauthorized\<close>;
  and its resumption, which returns.
\<close>

datatype auth_step = Returned AxiosError | Awaiting bool

definition handleAuthError_begin ::
  "AuthConfig \<Rightarrow> AxiosError \<Rightarrow> AuthHandler \<Rightarrow> AuthWorld \<Rightarrow> auth_step \<times> AuthHandler \<times> AuthWorld" where
  "handleAuthError_begin cfg error h w =
     (if \<not> auth_enabled cfg then (Returned error, h, w)
      else case err_response error of
        None \<Rightarrow> (Returned error, h, w)
      | Some r \<Rightarrow>
          if resp_status r = 401 then
            (case handleUnauthorized_begin cfg h w of
               (Done, h1, w1) \<Rightarrow> (Returned error, h1, w1)
             | (Suspended started_it, h1, w1) \<Rightarrow> (Awaiting started_it, h1, w1))
          else if resp_status r = 403 then (Returned error, h, handleForbidden cfg w)
          else (Returned error, h, w))"

definition handleAuthError_resume ::
  "AuthConfig \<Rightarrow> AxiosError \<Rightarrow> bool \<Rightarrow> string + string option \<Rightarrow> AuthHandler \<Rightarrow> AuthWorld
     \<Rightarrow> AxiosError \<times> AuthHandler \<times> AuthWorld" where
  "handleAuthError_resume cfg error started_it res h w =
     (let (h1, w1) = handleUnauthorized_resume cfg started_it res h w in (error, h1, w1))"

section \<open>Error handler (utils/errorHandler.ts) and the response-error interceptors\<close>

text \<open>
  How a promise settles: rejected with an error, or resolved with a value. A value thrown
  by user code is taken as an error record; a plain \<open>Error\<close> has neither code nor response.
\<close>

datatype 'v settlement = Rejects AxiosError | ResolvesWith 'v

text \<open>
  The hooks of \<open>ErrorConfig\<close> are user code that is awaited: a hook is given by what it
  throws on an error, \<open>None\<close> when it returns. \<open>transformError\<close> is given by how the value
  it returns settles. The notification handler is passed a message computed from the
  error, and the error; it is given as a function of the error.
\<close>

type_synonym hook = "AxiosError \<Rightarrow> AxiosError option"

record 'v ErrorConfig =
  onError :: "hook option"
  onNetworkError :: "hook option"
  onTimeoutError :: "hook option"
  onServerError :: "hook option"
  onClientError :: "hook option"
  transformError :: "(AxiosError \<Rightarrow> 'v settlement) option"
  showErrorNotifications :: bool
  errorNotificationHandler :: "hook option"

text \<open>\<open>if (hook) await hook(error)\<close>: what the statement throws.\<close>

definition call_hook :: "hook option \<Rightarrow> AxiosError \<Rightarrow> AxiosError option" where
  "call_hook hk error = (case hk of None \<Rightarrow> None | Some f \<Rightarrow> f error)"

definition handleSpecificError :: "'v ErrorConfig \<Rightarrow> AxiosError \<Rightarrow> AxiosError option" where
  "handleSpecificError cfg error =
     (case err_response error of
        None \<Rightarrow> call_hook (onNetworkError cfg) error
      | Some r \<Rightarrow>
          (case (if resp_status r \<ge> 500 then call_hook (onServerError cfg) error
                 else if resp_status r \<ge> 400 then call_hook (onClientError cfg) error
                 else None) of
             Some thrown_by_hook \<Rightarrow> Some thrown_by_hook
           | None \<Rightarrow>
               if err_code error = Some ''ECONNABORTED'' \<or> err_code error = Some ''ETIMEDOUT''
               then call_hook (onTimeoutError cfg) error
               else None))"

definition showErrorNotification :: "'v ErrorConfig \<Rightarrow> AxiosError \<Rightarrow> AxiosError option" where
  "showErrorNotification cfg error = call_hook (errorNotificationHandler cfg) error"

text \<open>
  \<open>handleError(error)\<close>. \<open>logger\<close> is the call \<open>this.logger.error(...)\<close> it starts with, which
  reaches the configured \<open>logFunction\<close>, user code as well. Whatever throws on the way
  rejects the promise with what it threw; otherwise the promise settles as
  \<open>transformError\<close>'s result if that hook is configured, and else is rejected with the
  error.
\<close>

definition handleError :: "hook \<Rightarrow> 'v ErrorConfig \<Rightarrow> AxiosError \<Rightarrow> 'v settlement" where
  "handleError logger cfg error =
     (case logger error of
        Some thrown_by_logger \<Rightarrow> Rejects thrown_by_logger
      | None \<Rightarrow>
     (case handleSpecificError cfg error of
        Some thrown_by_hook \<Rightarrow> Rejects thrown_by_hook
      | None \<Rightarrow>
     (case call_hook (onError cfg) error of
        Some thrown_by_hook \<Rightarrow> Rejects thrown_by_hook
      | None \<Rightarrow>
     (case transformError cfg of
        Some f \<Rightarrow> f error
      | None \<Rightarrow>
     (case (if showErrorNotifications cfg then showErrorNotification cfg error else None) of
        Some thrown_by_handler \<Rightarrow> Rejects thrown_by_handler
      | None \<Rightarrow> Rejects error)))))"

text \<open>
  The response-error interceptor of a service instance: \<open>handleAuthError\<close>, whose result
  it drops, then the service's own error interceptor if one is configured, else
  \<open>handleError\<close>, each on the same error. The interceptor of the global instance is the
  one without a custom interceptor. Should the handler come to wait for a refresh,
  \<open>reply\<close> is what the endpoint answers; the refresh settles and the handler goes on.
\<close>

definition response_error_interceptor ::
  "AuthConfig \<Rightarrow> (AxiosError \<Rightarrow> 'v settlement) option \<Rightarrow> hook \<Rightarrow> 'v ErrorConfig \<Rightarrow> fetch_reply
     \<Rightarrow> AxiosError \<Rightarrow> AuthHandler \<Rightarrow> AuthWorld \<Rightarrow> 'v settlement \<times> AuthHandler \<times> AuthWorld" where
  "response_error_interceptor cfg custom logger ecfg reply error h w =
     (let finish = (case custom of Some f \<Rightarrow> f error | None \<Rightarrow> handleError logger ecfg error)
      in case handleAuthError_begin cfg error h w of
        (Returned e, h1, w1) \<Rightarrow> (finish, h1, w1)
      | (Awaiting started_it, h1, w1) \<Rightarrow>
          (let (res, w2) = performTokenRefresh_end cfg reply w1;
               (e, h3, w3) = handleAuthError_resume cfg error started_it res h1 w2
           in (finish, h3, w3)))"

text \<open>
  Concrete inputs: the default error configuration and a logger that returns; the 401
  as axios builds it, with its code; the error interceptor of the README's service
  example, which throws a plain \<open>Error\<close> on a 401 and the error itself otherwise; and a
  transport that rejects its first call with a given error and then answers 200.
\<close>

definition error_cfg_example :: "AxiosResponse ErrorConfig" where
  "error_cfg_example =
     \<lparr>onError = None, onNetworkError = None, onTimeoutError = None, onServerError = None,
      onClientError = None, transformError = None, showErrorNotifications = False,
      errorNotificationHandler = None\<rparr>"

definition logger_example :: hook where
  "logger_example error = None"

definition bad_request_401 :: AxiosError where
  "bad_request_401 =
     \<lparr>err_code = Some ''ERR_BAD_REQUEST'', err_response = Some (response_example 401),
      err_message = ''Request failed with status code 401''\<rparr>"

definition plain_error :: "string \<Rightarrow> AxiosError" where
  "plain_error msg = \<lparr>err_code = None, err_response = None, err_message = msg\<rparr>"

definition readme_error_interceptor :: "AxiosError \<Rightarrow> AxiosResponse settlement" where
  "readme_error_interceptor error =
     (case err_response error of
        None \<Rightarrow> Rejects error
      | Some r \<Rightarrow> if resp_status r = 401 then Rejects (plain_error ''Authentication required'')
                  else Rejects error)"

definition rejects_once :: "AxiosError \<Rightarrow> nat \<Rightarrow> AxiosError + AxiosResponse" where
  "rejects_once error i = (if i = 0 then Inl error else Inr (response_example 200))"

text \<open>
  Concrete inputs: the README's configuration with token refresh and the default storage,
  a browser holding an access token and a refresh token, and a plain GET request.
\<close>

definition auth_cfg_example :: AuthConfig where
  "auth_cfg_example =
     \<lparr>auth_enabled = True, tokenKey = ''token'', tokenPrefix = ''Bearer'', getToken_hook = None,
      has_setToken = False, has_removeToken = False, has_onTokenExpired = False,
      has_onUnauthorized = False,
      refreshToken_cfg = Some \<lparr>rt_enabled = True, getRefreshToken_hook = None, refreshEndpoint = None,
        has_onRefreshSuccess = False, has_onRefreshFailed = False\<rparr>\<rparr>"

definition browser_example :: AuthWorld where
  "browser_example =
     \<lparr>has_window = True, browser_store = [(''token'', ''old''), (''token_refresh'', ''r1'')],
      auth_log = [], refreshCalls = 0\<rparr>"

definition request_example :: AxiosRequestConfig where
  "request_example =
     \<lparr>req_method = Some ''GET'', req_url = Some ''/users'', req_params = None, req_data = None,
      req_headers = [(''Accept'', ''application/json'')]\<rparr>"

section \<open>Request manager (utils/requestManager.ts)\<close>

record RequestManagerConfig =
  rm_enabled :: bool
  deduplication :: bool
  cancellation :: bool
  maxConcurrentRequests :: int
  requestTimeout :: int
  deduplicationWindow :: int

text \<open>
  A pending request: its id, its descriptor, the promise handed to the caller (named by
  a number) and its start time. The same object sits in \<open>pendingRequests\<close> under its id
  and in \<open>deduplicationMap\<close> under its dedup key.
\<close>

record PendingRequest =
  pr_id :: string
  pr_config :: AxiosRequestConfig
  pr_promise :: nat
  pr_timestamp :: int

datatype history_status = HPending | HCompleted | HCancelled | HError

record HistoryEntry =
  he_id :: string
  he_startTime :: int
  he_endTime :: "int option"
  he_duration :: "int option"
  he_status :: history_status
  he_error :: "AxiosError option"

record RequestStats =
  st_totalRequests :: nat
  st_activeRequests :: int
  st_completedRequests :: nat
  st_cancelledRequests :: nat
  st_deduplicatedRequests :: nat
  averageResponseTime :: real
  errorRate :: real

datatype promise_state = Fulfilled AxiosResponse | RejectedWith AxiosError | RejectedMessage string

text \<open>
  The manager's fields, and beside them what it does to the outside: \<open>promises\<close> holds the
  promises it has settled, \<open>transport_calls\<close> the calls of \<open>requestFn\<close> it has made (with
  the manager's request id, empty when the manager is disabled), \<open>aborted\<close> the ids whose
  abort controller it has fired.
\<close>

record RequestManager =
  pendingRequests :: "(string \<times> PendingRequest) list"
  deduplicationMap :: "(string \<times> PendingRequest) list"
  requestHistory :: "HistoryEntry list"
  rm_stats :: RequestStats
  promises :: "(nat \<times> promise_state) list"
  next_promise :: nat
  transport_calls :: "(string \<times> AxiosRequestConfig) list"
  aborted :: "string list"


text \<open>\<open>getRequestKey(config)\<close>: \<open>x || d\<close> takes \<open>d\<close> for a missing or empty \<open>x\<close>.\<close>

definition or_default :: "string option \<Rightarrow> string \<Rightarrow> string" where
  "or_default x d = (if truthy_str x then the x else d)"

definition getRequestKey :: "AxiosRequestConfig \<Rightarrow> string" where
  "getRequestKey config =
     (let method = or_default (req_method config) ''GET'';
          url = or_default (req_url config) '''';
          params = or_default (req_params config) ''{}'';
          data = or_default (req_data config) ''{}''
      in method @ '':'' @ url @ '':'' @ params @ '':'' @ data)"

text \<open>
  What a caller of \<open>executeRequest\<close> holds: the promise of a direct transport call (manager
  disabled), a promise of the manager, or a rejection for lack of capacity.
\<close>

datatype exec_result = Direct nat | Observes nat | CapacityExceeded

text \<open>
  \<open>executeRequest(config, requestFn)\<close>: it runs without suspension up to its \<open>return\<close>.
  \<open>now\<close> is the clock, \<open>requestId\<close> what \<open>generateRequestId()\<close> made.
\<close>

definition executeRequest ::
  "RequestManagerConfig \<Rightarrow> int \<Rightarrow> string \<Rightarrow> AxiosRequestConfig \<Rightarrow> RequestManager \<Rightarrow> exec_result \<times> RequestManager" where
  "executeRequest cfg now requestId config s =
     (if \<not> rm_enabled cfg then
        (Direct (length (transport_calls s)), s\<lparr>transport_calls := transport_calls s @ [([], config)]\<rparr>)
      else
        (let requestKey = getRequestKey config
         in case (if deduplication cfg then map_of (deduplicationMap s) requestKey else None) of
           Some existingRequest \<Rightarrow>
             (Observes (pr_promise existingRequest),
              s\<lparr>rm_stats := (rm_stats s)\<lparr>st_deduplicatedRequests :=
                   st_deduplicatedRequests (rm_stats s) + 1\<rparr>\<rparr>)
         | None \<Rightarrow>
             if int (length (pendingRequests s)) \<ge> maxConcurrentRequests cfg then (CapacityExceeded, s)
             else
               (let pendingRequest = \<lparr>pr_id = requestId, pr_config = config,
                      pr_promise = next_promise s, pr_timestamp = now\<rparr>
                in (Observes (next_promise s),
                    s\<lparr>pendingRequests := AList.update requestId pendingRequest (pendingRequests s),
                      deduplicationMap :=
                        (if deduplication cfg
                         then AList.update requestKey pendingRequest (deduplicationMap s)
                         else deduplicationMap s),
                      requestHistory := requestHistory s @
                        [\<lparr>he_id = requestId, he_startTime = now, he_endTime = None,
                          he_duration = None, he_status = HPending, he_error = None\<rparr>],
                      rm_stats := (rm_stats s)\<lparr>
                        st_totalRequests := st_totalRequests (rm_stats s) + 1,
                        st_activeRequests := st_activeRequests (rm_stats s) + 1\<rparr>,
                      next_promise := next_promise s + 1,
                      transport_calls := transport_calls s @ [(requestId, config)]\<rparr>))))"

text \<open>A promise settles once: later calls of its \<open>resolve\<close> or \<open>reject\<close> do nothing.\<close>

definition settle_promise :: "nat \<Rightarrow> promise_state \<Rightarrow> (nat \<times> promise_state) list \<Rightarrow> (nat \<times> promise_state) list" where
  "settle_promise p v ps = (case map_of ps p of Some old \<Rightarrow> ps | None \<Rightarrow> ps @ [(p, v)])"

text \<open>The history entry that \<open>find\<close> returns is the first one with the id.\<close>

fun update_history :: "string \<Rightarrow> (HistoryEntry \<Rightarrow> HistoryEntry) \<Rightarrow> HistoryEntry list \<Rightarrow> HistoryEntry list" where
  "update_history rid f [] = []"
| "update_history rid f (e # es) = (if he_id e = rid then f e # es else e # update_history rid f es)"

definition updateAverageResponseTime :: "int \<Rightarrow> RequestStats \<Rightarrow> RequestStats" where
  "updateAverageResponseTime duration st =
     (let totalCompleted = st_completedRequests st + st_cancelledRequests st
      in if totalCompleted > 0
         then st\<lparr>averageResponseTime :=
                (averageResponseTime st * (real totalCompleted - 1) + real_of_int duration) / real totalCompleted\<rparr>
         else st)"

definition updateErrorRate :: "HistoryEntry list \<Rightarrow> RequestStats \<Rightarrow> RequestStats" where
  "updateErrorRate history st =
     (let total = st_completedRequests st + st_cancelledRequests st
      in if total > 0
         then st\<lparr>errorRate := real (length (filter (\<lambda>entry. he_status entry = HError) history)) / real total\<rparr>
         else st)"

definition handleRequestSuccess :: "int \<Rightarrow> string \<Rightarrow> AxiosResponse \<Rightarrow> RequestManager \<Rightarrow> RequestManager" where
  "handleRequestSuccess now requestId response s =
     (case map_of (pendingRequests s) requestId of
        None \<Rightarrow> s
      | Some request \<Rightarrow>
          (let duration = now - pr_timestamp request;
               st1 = (rm_stats s)\<lparr>st_activeRequests := st_activeRequests (rm_stats s) - 1,
                        st_completedRequests := st_completedRequests (rm_stats s) + 1\<rparr>
           in s\<lparr>rm_stats := updateAverageResponseTime duration st1,
                requestHistory := update_history requestId
                  (\<lambda>e. e\<lparr>he_endTime := Some now, he_duration := Some duration, he_status := HCompleted\<rparr>)
                  (requestHistory s),
                pendingRequests := AList.delete requestId (pendingRequests s),
                deduplicationMap := AList.delete (getRequestKey (pr_config request)) (deduplicationMap s),
                promises := settle_promise (pr_promise request) (Fulfilled response) (promises s)\<rparr>))"

definition handleRequestError :: "int \<Rightarrow> string \<Rightarrow> AxiosError \<Rightarrow> RequestManager \<Rightarrow> RequestManager" where
  "handleRequestError now requestId error s =
     (case map_of (pendingRequests s) requestId of
        None \<Rightarrow> s
      | Some request \<Rightarrow>
          (let duration = now - pr_timestamp request;
               st1 = (rm_stats s)\<lparr>st_activeRequests := st_activeRequests (rm_stats s) - 1,
                        st_completedRequests := st_completedRequests (rm_stats s) + 1\<rparr>
           in s\<lparr>rm_stats := updateErrorRate (requestHistory s) (updateAverageResponseTime duration st1),
                requestHistory := update_history requestId
                  (\<lambda>e. e\<lparr>he_endTime := Some now, he_duration := Some duration, he_status := HError,
                         he_error := Some error\<rparr>)
                  (requestHistory s),
                pendingRequests := AList.delete requestId (pendingRequests s),
                deduplicationMap := AList.delete (getRequestKey (pr_config request)) (deduplicationMap s),
                promises := settle_promise (pr_promise request) (RejectedWith error) (promises s)\<rparr>))"

definition handleRequestCancellation :: "int \<Rightarrow> string \<Rightarrow> RequestManager \<Rightarrow> RequestManager" where
  "handleRequestCancellation now requestId s =
     (case map_of (pendingRequests s) requestId of
        None \<Rightarrow> s
      | Some request \<Rightarrow>
          (let duration = now - pr_timestamp request
           in s\<lparr>rm_stats := (rm_stats s)\<lparr>st_activeRequests := st_activeRequests (rm_stats s) - 1,
                        st_cancelledRequests := st_cancelledRequests (rm_stats s) + 1\<rparr>,
                requestHistory := update_history requestId
                  (\<lambda>e. e\<lparr>he_endTime := Some now, he_duration := Some duration, he_status := HCancelled\<rparr>)
                  (requestHistory s),
                pendingRequests := AList.delete requestId (pendingRequests s),
                deduplicationMap := AList.delete (getRequestKey (pr_config request)) (deduplicationMap s),
                promises := settle_promise (pr_promise request) (RejectedMessage ''Request cancelled'')
                  (promises s)\<rparr>))"

definition cancelRequest :: "int \<Rightarrow> string \<Rightarrow> RequestManager \<Rightarrow> bool \<times> RequestManager" where
  "cancelRequest now requestId s =
     (case map_of (pendingRequests s) requestId of
        None \<Rightarrow> (False, s)
      | Some request \<Rightarrow>
          (True, handleRequestCancellation now requestId (s\<lparr>aborted := aborted s @ [requestId]\<rparr>)))"




section \<open>Token manager (utils/tokenManager.ts): attaching a stored token\<close>

record TokenConfig =
  accessToken :: string
  tc_refreshToken :: "string option"
  apiKey :: "string option"
  expiresAt :: "int option"
  tokenType :: "string option"

record TokenManager =
  tokens :: "(string \<times> TokenConfig) list"
  primaryToken :: string
  fallbackTokens :: "string list"
  usageCounts :: "(string \<times> nat) list"
  errorCounts :: "(string \<times> nat) list"

definition tm_getToken :: "string \<Rightarrow> TokenManager \<Rightarrow> TokenConfig option" where
  "tm_getToken name s = map_of (tokens s) (if name \<noteq> [] then name else primaryToken s)"

definition isTokenValid :: "int \<Rightarrow> TokenConfig \<Rightarrow> bool" where
  "isTokenValid now token = (if \<not> truthy_num (expiresAt token) then True else now < the (expiresAt token))"

definition incrementUsage :: "string \<Rightarrow> TokenManager \<Rightarrow> TokenManager" where
  "incrementUsage tokenName s =
     s\<lparr>usageCounts := AList.update tokenName
         ((case map_of (usageCounts s) tokenName of None \<Rightarrow> 0 | Some n \<Rightarrow> n) + 1) (usageCounts s)\<rparr>"

text \<open>The loop of \<open>getValidToken\<close> over the fallback names.\<close>

fun first_valid_fallback :: "int \<Rightarrow> string list \<Rightarrow> TokenManager \<Rightarrow> TokenConfig option \<times> TokenManager" where
  "first_valid_fallback now [] s = (None, s)"
| "first_valid_fallback now (fallbackName # names) s =
     (case tm_getToken fallbackName s of
        None \<Rightarrow> first_valid_fallback now names s
      | Some fallback \<Rightarrow>
          if isTokenValid now fallback then (Some fallback, incrementUsage fallbackName s)
          else first_valid_fallback now names s)"

definition getValidToken :: "int \<Rightarrow> TokenManager \<Rightarrow> TokenConfig option \<times> TokenManager" where
  "getValidToken now s =
     (case tm_getToken (primaryToken s) s of
        None \<Rightarrow> first_valid_fallback now (fallbackTokens s) s
      | Some primary \<Rightarrow>
          if isTokenValid now primary then (Some primary, incrementUsage (primaryToken s) s)
          else first_valid_fallback now (fallbackTokens s) s)"

definition buildAuthHeader :: "TokenConfig \<Rightarrow> (string \<times> string) list" where
  "buildAuthHeader token =
     (let h1 = (if accessToken token \<noteq> []
                then [(''Authorization'', or_default (tokenType token) ''Bearer'' @ '' '' @ accessToken token)]
                else [])
      in if truthy_str (apiKey token) then AList.update ''X-API-Key'' (the (apiKey token)) h1 else h1)"

text \<open>\<open>TokenManager.addAuthHeader(config)\<close>: the headers object is the old one overlaid with the new.\<close>

definition tm_addAuthHeader :: "int \<Rightarrow> AxiosRequestConfig \<Rightarrow> TokenManager \<Rightarrow> AxiosRequestConfig \<times> TokenManager" where
  "tm_addAuthHeader now config s =
     (case getValidToken now s of
        (None, s1) \<Rightarrow> (config, s1)
      | (Some token, s1) \<Rightarrow>
          (config\<lparr>req_headers := fold (\<lambda>kv hs. AList.update (fst kv) (snd kv) hs)
                                    (buildAuthHeader token) (req_headers config)\<rparr>, s1))"

section \<open>Circuit breaker: opening and recovery\<close>

lemma canExecute_Open_early:
  "cb_enabled cfg \<Longrightarrow> cb_state s = Open \<Longrightarrow> nextAttemptTime s = Some t \<Longrightarrow> now < t \<Longrightarrow>
   canExecute cfg now s = (False, s)"
  by (simp add: canExecute_def)

text \<open>
  Once Open, a breaker stays Open under counted failures and timer callbacks, and keeps
  its \<open>nextAttemptTime\<close>.
\<close>

lemma step_keeps_Open:
  "cb_state s = Open \<Longrightarrow> failure_or_timer cfg ev \<Longrightarrow>
   cb_state (breaker_step cfg ev s) = Open \<and>
   nextAttemptTime (breaker_step cfg ev s) = nextAttemptTime s"
  by (cases ev)
     (simp_all add: onFailure_def Let_def resetTimer_callback_def resetTimer_fires_def
        split: option.splits)

lemma run_keeps_Open:
  "cb_state s = Open \<Longrightarrow> \<forall>ev\<in>set evs. failure_or_timer cfg ev \<Longrightarrow>
   cb_state (run_events cfg evs s) = Open \<and>
   nextAttemptTime (run_events cfg evs s) = nextAttemptTime s"
proof (induction evs arbitrary: s)
  case Nil
  then show ?case by simp
next
  case (Cons ev evs)
  from Cons.prems have fo: "failure_or_timer cfg ev" by simp
  from step_keeps_Open[OF Cons.prems(1) fo]
  have o: "cb_state (breaker_step cfg ev s) = Open"
    and n: "nextAttemptTime (breaker_step cfg ev s) = nextAttemptTime s" by simp_all
  from Cons.IH[OF o] Cons.prems(2) n show ?case by simp
qed

text \<open>
  Where no reset timer is pending, the claimed opening holds even with timer callbacks
  coming up in between: counted failures that bring \<open>failureCount\<close> to the threshold open
  a Closed breaker, and it then refuses until \<open>nextAttemptTime\<close>.
\<close>

lemma failures_open_without_pending_timer:
  "cb_state s = Closed \<Longrightarrow> resetTimer s = None \<Longrightarrow> \<forall>ev\<in>set evs. failure_or_timer cfg ev \<Longrightarrow>
   filter is_failure evs \<noteq> [] \<Longrightarrow>
   failureThreshold cfg \<le> failureCount s + length (filter is_failure evs) \<Longrightarrow>
   cb_state (run_events cfg evs s) = Open \<and>
   (\<exists>t. nextAttemptTime (run_events cfg evs s) = Some t)"
proof (induction evs arbitrary: s)
  case Nil
  then show ?case by simp
next
  case (Cons ev evs)
  from Cons.prems(3) have rest: "\<forall>ev\<in>set evs. failure_or_timer cfg ev" by simp
  show ?case
  proof (cases ev)
    case (Failed t e)
    with Cons.prems(3) have cnt: "counted cfg e" by simp
    let ?s1 = "onFailure cfg t e s"
    show ?thesis
    proof (cases "failureThreshold cfg \<le> failureCount s + 1")
      case True
      then have o: "cb_state ?s1 = Open" and n: "nextAttemptTime ?s1 = Some (t + cb_timeout cfg)"
        using Cons.prems(1) cnt by (simp_all add: onFailure_def Let_def open_breaker_def)
      from run_keeps_Open[OF o rest] n show ?thesis by (simp add: Failed)
    next
      case False
      then have c: "cb_state ?s1 = Closed" and k: "failureCount ?s1 = failureCount s + 1"
        and tm: "resetTimer ?s1 = None"
        using Cons.prems(1,2) cnt by (simp_all add: onFailure_def Let_def)
      from False Cons.prems(5) Failed have ne: "filter is_failure evs \<noteq> []" by auto
      from Cons.prems(5) Failed k
      have "failureThreshold cfg \<le> failureCount ?s1 + length (filter is_failure evs)" by simp
      from Cons.IH[OF c tm rest ne this] show ?thesis by (simp add: Failed)
    qed
  next
    case (TimerRuns t)
    then have same: "breaker_step cfg ev s = s"
      using Cons.prems(2) by (simp add: resetTimer_callback_def)
    from Cons.prems(4,5) TimerRuns
    have "filter is_failure evs \<noteq> []"
      and "failureThreshold cfg \<le> failureCount s + length (filter is_failure evs)" by simp_all
    from Cons.IH[OF Cons.prems(1,2) rest this] show ?thesis by (simp add: same)
  next
    case (Succeeded t)
    with Cons.prems(3) show ?thesis by simp
  next
    case ForceClose
    with Cons.prems(3) show ?thesis by simp
  qed
qed

text \<open>
  Claim C2 at its failing input, with \<open>failureThreshold = 2\<close>, \<open>timeout = 60000\<close> and
  \<open>resetTimeout = 30000\<close>: two failures open the breaker at 1001 and set the reset timer
  for 31001; \<open>forceClose()\<close> closes the breaker and leaves that timer pending. A counted
  failure is then recorded at 31000, the timer callback zeroes \<open>failureCount\<close> at 31001,
  and the next counted failure at 31002 finds the count at 1: after two consecutive
  counted failures, with no success in between, the breaker is still Closed and admits.
\<close>

theorem forceClose_leaves_timer_that_unprimes:
  "resetTimer (run_events cb_cfg_example
       [Failed 1000 (http_error 500), Failed 1001 (http_error 503), ForceClose] new_CircuitBreaker)
     = Some 31001 \<and>
   cb_state (run_events cb_cfg_example
       [Failed 1000 (http_error 500), Failed 1001 (http_error 503), ForceClose] new_CircuitBreaker)
     = Closed \<and>
   cb_state (run_events cb_cfg_example
       [Failed 1000 (http_error 500), Failed 1001 (http_error 503), ForceClose,
        Failed 31000 (http_error 500), TimerRuns 31001, Failed 31002 (http_error 500)]
       new_CircuitBreaker) = Closed \<and>
   failureCount (run_events cb_cfg_example
       [Failed 1000 (http_error 500), Failed 1001 (http_error 503), ForceClose,
        Failed 31000 (http_error 500), TimerRuns 31001, Failed 31002 (http_error 500)]
       new_CircuitBreaker) = 1 \<and>
   fst (canExecute cb_cfg_example 31003 (run_events cb_cfg_example
       [Failed 1000 (http_error 500), Failed 1001 (http_error 503), ForceClose,
        Failed 31000 (http_error 500), TimerRuns 31001, Failed 31002 (http_error 500)]
       new_CircuitBreaker)) = True \<and>
   cb_state (run_events cb_cfg_example
       [Failed 1000 (http_error 500), Failed 1001 (http_error 503), ForceClose,
        Failed 31000 (http_error 500), Failed 31002 (http_error 500)]
       new_CircuitBreaker) = Open"
  by (simp add: cb_cfg_example_def new_CircuitBreaker_def counted_def onFailure_def open_breaker_def
      forceClose_def resetTimer_callback_def resetTimer_fires_def canExecute_def Let_def)

lemma open_inv_canExecute: "open_inv s \<Longrightarrow> open_inv (snd (canExecute cfg now s))"
  by (auto simp: open_inv_def canExecute_def split: CircuitState.splits option.splits if_splits)

lemma open_inv_onFailure: "0 \<le> cb_timeout cfg \<Longrightarrow> 0 < now \<Longrightarrow> open_inv s \<Longrightarrow> open_inv (onFailure cfg now e s)"
  by (auto simp: open_inv_def onFailure_def Let_def open_breaker_def)

lemma open_inv_onSuccess: "open_inv s \<Longrightarrow> open_inv (onSuccess cfg now s)"
  by (auto simp: open_inv_def onSuccess_def Let_def close_breaker_def)

lemma open_inv_admit: "open_inv s \<Longrightarrow> open_inv (snd (execute_admit cfg now s))"
proof -
  assume a: "open_inv s"
  have "open_inv (s\<lparr>totalRequests := totalRequests s + 1\<rparr>)" using a by (simp add: open_inv_def)
  from open_inv_canExecute[OF this, of cfg now] a show ?thesis
    by (cases "canExecute cfg now (s\<lparr>totalRequests := totalRequests s + 1\<rparr>)")
       (simp add: execute_admit_def Let_def)
qed

lemma reachable_open_inv:
  assumes "reachable cfg s" and "0 \<le> cb_timeout cfg"
  shows "open_inv s"
  using assms
proof (induction rule: reachable.induct)
  case r_new
  then show ?case by (simp add: open_inv_def new_CircuitBreaker_def)
next
  case (r_admit s now)
  then show ?case by (simp add: open_inv_admit)
next
  case (r_settle s now outcome)
  then show ?case
    by (cases outcome) (simp_all add: execute_settle_def open_inv_onFailure open_inv_onSuccess)
next
  case (r_canExecute s now)
  then show ?case by (simp add: open_inv_canExecute)
next
  case (r_reset s)
  then show ?case by (simp add: open_inv_def reset_breaker_def)
next
  case (r_forceOpen s now)
  then show ?case by (simp add: open_inv_def forceOpen_def)
next
  case (r_forceClose s)
  then show ?case by (simp add: open_inv_def forceClose_def)
next
  case (r_forceHalfOpen s)
  then show ?case by (simp add: open_inv_def forceHalfOpen_def)
next
  case (r_timer s)
  then show ?case by (simp add: open_inv_def resetTimer_fires_def)
next
  case (r_cleanup s now)
  then show ?case by (simp add: open_inv_def cleanupFailureHistory_def)
qed

lemma onSuccess_HalfOpen_below:
  "cb_state s = HalfOpen \<Longrightarrow> successCount s + 1 < successThreshold cfg \<Longrightarrow>
   cb_state (onSuccess cfg t s) = HalfOpen \<and> successCount (onSuccess cfg t s) = successCount s + 1"
  by (simp add: onSuccess_def Let_def)

lemma onSuccess_HalfOpen_closes:
  "cb_state s = HalfOpen \<Longrightarrow> successThreshold cfg \<le> successCount s + 1 \<Longrightarrow>
   cb_state (onSuccess cfg t s) = Closed \<and> failureCount (onSuccess cfg t s) = 0 \<and>
   successCount (onSuccess cfg t s) = 0 \<and> nextAttemptTime (onSuccess cfg t s) = None"
  by (simp add: onSuccess_def Let_def close_breaker_def)

lemma record_successes_below:
  "cb_state s = HalfOpen \<Longrightarrow> successCount s + length ts < successThreshold cfg \<Longrightarrow>
   cb_state (record_successes cfg ts s) = HalfOpen \<and>
   successCount (record_successes cfg ts s) = successCount s + length ts"
proof (induction ts arbitrary: s)
  case Nil
  then show ?case by simp
next
  case (Cons t ts)
  from Cons.prems have "successCount s + 1 < successThreshold cfg" by simp
  from onSuccess_HalfOpen_below[OF Cons.prems(1) this, of t]
  have h: "cb_state (onSuccess cfg t s) = HalfOpen" and c: "successCount (onSuccess cfg t s) = successCount s + 1"
    by simp_all
  from Cons.IH[OF h] Cons.prems(2) c show ?case by simp
qed

lemma record_successes_closes:
  assumes "cb_state s = HalfOpen" and "ts \<noteq> []" and "successCount s + length ts = successThreshold cfg"
  shows "cb_state (record_successes cfg ts s) = Closed \<and> failureCount (record_successes cfg ts s) = 0 \<and>
   successCount (record_successes cfg ts s) = 0 \<and> nextAttemptTime (record_successes cfg ts s) = None"
proof -
  from assms(2) obtain us u where ts: "ts = us @ [u]" by (cases ts rule: rev_cases) auto
  have app: "\<And>xs ys s. record_successes cfg (xs @ ys) s = record_successes cfg ys (record_successes cfg xs s)"
  proof -
    fix xs ys s show "record_successes cfg (xs @ ys) s = record_successes cfg ys (record_successes cfg xs s)"
      by (induction xs arbitrary: s) simp_all
  qed
  let ?m = "record_successes cfg us s"
  from assms(3) ts have "successCount s + length us < successThreshold cfg" by simp
  from record_successes_below[OF assms(1) this]
  have h: "cb_state ?m = HalfOpen" and c: "successCount ?m = successCount s + length us" by simp_all
  from c assms(3) ts have "successThreshold cfg \<le> successCount ?m + 1" by simp
  from onSuccess_HalfOpen_closes[OF h this, of u] show ?thesis by (simp add: ts app)
qed

text \<open>
  Claim C3. For a breaker that is Open (any state the class can reach, with a timeout that
  is not negative): the \<open>canExecute\<close> call at \<open>now \<ge> nextAttemptTime\<close> answers true and moves
  to HalfOpen with \<open>successCount = 0\<close>; calls before that time answer false and change
  nothing, calls after it answer true and change nothing, so only that call makes the
  transition. From there \<open>successThreshold\<close> consecutive recorded successes end in Closed
  with \<open>failureCount = 0\<close>, \<open>successCount = 0\<close> and \<open>nextAttemptTime\<close> cleared; fewer
  successes leave the breaker HalfOpen.
\<close>

theorem open_to_halfopen_to_closed:
  assumes "reachable cfg s" and "0 \<le> cb_timeout cfg" and "cb_enabled cfg"
    and "cb_state s = Open" and "nextAttemptTime s = Some t" and "t \<le> now"
    and "0 < successThreshold cfg" and "length ts = successThreshold cfg"
  shows "canExecute cfg now s = (True, s\<lparr>cb_state := HalfOpen, successCount := 0\<rparr>) \<and>
    (\<forall>early. early < t \<longrightarrow> canExecute cfg early s = (False, s)) \<and>
    (\<forall>later. canExecute cfg later (s\<lparr>cb_state := HalfOpen, successCount := 0\<rparr>) =
        (True, s\<lparr>cb_state := HalfOpen, successCount := 0\<rparr>)) \<and>
    (\<forall>k. k < length ts \<longrightarrow>
        cb_state (record_successes cfg (take k ts) (s\<lparr>cb_state := HalfOpen, successCount := 0\<rparr>)) = HalfOpen) \<and>
    cb_state (record_successes cfg ts (s\<lparr>cb_state := HalfOpen, successCount := 0\<rparr>)) = Closed \<and>
    failureCount (record_successes cfg ts (s\<lparr>cb_state := HalfOpen, successCount := 0\<rparr>)) = 0 \<and>
    successCount (record_successes cfg ts (s\<lparr>cb_state := HalfOpen, successCount := 0\<rparr>)) = 0 \<and>
    nextAttemptTime (record_successes cfg ts (s\<lparr>cb_state := HalfOpen, successCount := 0\<rparr>)) = None"
proof -
  let ?h = "s\<lparr>cb_state := HalfOpen, successCount := 0\<rparr>"
  from reachable_open_inv[OF assms(1,2)] assms(4,5) have tpos: "0 < t" by (simp add: open_inv_def)
  have first: "canExecute cfg now s = (True, ?h)"
    using assms(3,4,5,6) tpos by (simp add: canExecute_def)
  have early: "\<forall>early. early < t \<longrightarrow> canExecute cfg early s = (False, s)"
    using assms(3,4,5) by (simp add: canExecute_def)
  have later: "\<forall>later. canExecute cfg later ?h = (True, ?h)"
    using assms(3) by (simp add: canExecute_def)
  have hs: "cb_state ?h = HalfOpen" and hc: "successCount ?h = 0" by simp_all
  have part: "\<forall>k. k < length ts \<longrightarrow> cb_state (record_successes cfg (take k ts) ?h) = HalfOpen"
  proof (intro allI impI)
    fix k assume "k < length ts"
    then have "successCount ?h + length (take k ts) < successThreshold cfg" using assms(8) by simp
    from record_successes_below[OF hs this] show "cb_state (record_successes cfg (take k ts) ?h) = HalfOpen"
      by simp
  qed
  from assms(7,8) have ne: "ts \<noteq> []" by auto
  have "successCount ?h + length ts = successThreshold cfg" using assms(8) by simp
  from record_successes_closes[OF hs ne this] first early later part show ?thesis by blast
qed

lemma opened_example_reachable:
  "reachable cb_cfg_example
     (execute_settle cb_cfg_example 1001 (Inl (http_error 503))
       (execute_settle cb_cfg_example 1000 (Inl (http_error 500)) new_CircuitBreaker))"
  by (intro r_settle r_new) simp_all

theorem open_to_halfopen_to_closed_witness:
  "cb_state (execute_settle cb_cfg_example 1001 (Inl (http_error 503))
       (execute_settle cb_cfg_example 1000 (Inl (http_error 500)) new_CircuitBreaker)) = Open \<and>
   fst (canExecute cb_cfg_example 61001 (execute_settle cb_cfg_example 1001 (Inl (http_error 503))
       (execute_settle cb_cfg_example 1000 (Inl (http_error 500)) new_CircuitBreaker))) = True \<and>
   cb_state (record_successes cb_cfg_example [61050, 61060]
      (snd (canExecute cb_cfg_example 61001 (execute_settle cb_cfg_example 1001 (Inl (http_error 503))
       (execute_settle cb_cfg_example 1000 (Inl (http_error 500)) new_CircuitBreaker))))) = Closed"
  using open_to_halfopen_to_closed
    [OF opened_example_reachable, of 61001 61001 "[61050, 61060]"]
  by (simp add: cb_cfg_example_def new_CircuitBreaker_def counted_def onFailure_def open_breaker_def
      execute_settle_def canExecute_def Let_def)

section \<open>Cache store: expiry and the size bound\<close>



lemma map_of_fold_delete:
  "map_of (fold AList.delete ks al) k = (if k \<in> set ks then None else map_of al k)"
proof (induction ks arbitrary: al)
  case Nil
  then show ?case by simp
next
  case (Cons a ks)
  show ?case
  proof (cases "k = a")
    case True
    have "map_of (AList.delete a al) a = None" by (simp add: delete_conv')
    with Cons.IH[of "AList.delete a al"] True show ?thesis by simp
  next
    case False
    then have "map_of (AList.delete a al) k = map_of al k" by simp
    with Cons.IH[of "AList.delete a al"] False show ?thesis by simp
  qed
qed



lemma enforceMaxSize_other_stores:
  "localStorage (enforceMaxSize cfg s) = localStorage s \<and> indexedDB (enforceMaxSize cfg s) = indexedDB s"
  by (simp add: enforceMaxSize_def Let_def)

lemma fold_delete_keys: "fold (\<lambda>kv m. AList.delete (fst kv) m) xs al = fold AList.delete (map fst xs) al"
  by (induction xs arbitrary: al) simp_all

lemma enforceMaxSize_lookup:
  "map_of (memoryCache (enforceMaxSize cfg s)) k = None \<or>
   map_of (memoryCache (enforceMaxSize cfg s)) k = map_of (memoryCache s) k"
  by (simp add: enforceMaxSize_def Let_def fold_delete_keys map_of_fold_delete)

lemma set_leaves_nothing_or_entry:
  assumes "cache_enabled cfg" and "shouldCache cfg response"
  shows "getEntry cfg win k (cache_set cfg win T k response s) = None \<or>
     getEntry cfg win k (cache_set cfg win T k response s) =
       Some \<lparr>ce_key = k, ce_data = response, ce_timestamp = T, ce_ttl = cache_ttl cfg,
             ce_etag = resp_etag response, ce_lastModified = resp_last_modified response\<rparr>"
proof -
  let ?entry = "\<lparr>ce_key = k, ce_data = response, ce_timestamp = T, ce_ttl = cache_ttl cfg,
                  ce_etag = resp_etag response, ce_lastModified = resp_last_modified response\<rparr>"
  let ?s1 = "setEntry cfg win k ?entry s"
  have st: "cache_set cfg win T k response s = enforceMaxSize cfg ?s1"
    using assms by (simp add: cache_set_def Let_def)
  show ?thesis
  proof (cases "storage cfg")
    case Memory
    have "map_of (memoryCache ?s1) k = Some ?entry"
      using Memory by (simp add: setEntry_def update_conv')
    with enforceMaxSize_lookup[of cfg ?s1 k] Memory show ?thesis
      by (auto simp: st getEntry_def)
  next
    case LocalStorage
    then show ?thesis
      by (simp add: st getEntry_def enforceMaxSize_other_stores setEntry_def update_conv')
  next
    case IndexedDB
    then show ?thesis
      by (simp add: st getEntry_def enforceMaxSize_other_stores setEntry_def update_conv')
  qed
qed





text \<open>An entry is written under its own key by every backend.\<close>

lemma entry_key_is_key:
  "getEntry cfg win k (cache_set cfg win T k response s) = Some entry \<Longrightarrow>
   cache_enabled cfg \<Longrightarrow> shouldCache cfg response \<Longrightarrow>
   ce_key entry = k \<and> ce_timestamp entry = T \<and> ce_ttl entry = cache_ttl cfg \<and> ce_data entry = response"
  using set_leaves_nothing_or_entry[of cfg response win k T s] by auto



text \<open>
  The conditions for the in-memory backend are needed: with \<open>maxSize = 0\<close> the entry just
  set is evicted by the same call.
\<close>

lemma set_into_zero_sized_cache:
  "fst (cache_get (cache_cfg_example Memory 0) False 100 ''/a''
         (cache_set (cache_cfg_example Memory 0) False 100 ''/a'' (response_example 200) new_CacheManager))
     = None"
  by (simp add: cache_cfg_example_def shouldCache_def response_example_def new_CacheManager_def
      cache_set_def cache_get_def setEntry_def getEntry_def enforceMaxSize_def Let_def)


text \<open>
  With the in-memory backend the size bound is kept: after \<open>enforceMaxSize\<close> at most
  \<open>maxSize\<close> entries remain, and every entry it removed is at least as old as every
  entry it kept.
\<close>

lemma length_delete_present:
  "distinct (map fst al) \<Longrightarrow> k \<in> fst ` set al \<Longrightarrow> Suc (length (AList.delete k al)) = length al"
proof (induction al)
  case Nil
  then show ?case by simp
next
  case (Cons p al)
  show ?case
  proof (cases "fst p = k")
    case True
    with Cons.prems(1) have "k \<notin> fst ` set al" by auto
    then have "AList.delete k al = al" by (simp add: delete_id)
    with True show ?thesis by (cases p) simp
  next
    case False
    with Cons.prems have "distinct (map fst al)" "k \<in> fst ` set al" by auto
    from Cons.IH[OF this] False show ?thesis by (cases p) simp
  qed
qed

lemma length_fold_delete:
  "distinct (map fst al) \<Longrightarrow> distinct ks \<Longrightarrow> set ks \<subseteq> fst ` set al \<Longrightarrow>
   length (fold AList.delete ks al) + length ks = length al"
proof (induction ks arbitrary: al)
  case Nil
  then show ?case by simp
next
  case (Cons k ks)
  have d: "distinct (map fst (AList.delete k al))" using Cons.prems(1) by (rule distinct_delete)
  have "fst ` set (AList.delete k al) = set (removeAll k (map fst al))"
    using delete_keys[of k al] by (metis set_map)
  then have "set ks \<subseteq> fst ` set (AList.delete k al)"
    using Cons.prems(2,3) by auto
  from Cons.IH[OF d _ this] Cons.prems(2)
  have "length (fold AList.delete ks (AList.delete k al)) + length ks = length (AList.delete k al)" by simp
  moreover have "Suc (length (AList.delete k al)) = length al"
    using length_delete_present[OF Cons.prems(1)] Cons.prems(3) by simp
  ultimately show ?case by simp
qed

lemma memory_bound_enforced:
  assumes "distinct (map fst (memoryCache s))" and "0 \<le> maxSize cfg"
  shows "int (length (memoryCache (enforceMaxSize cfg s))) \<le> max (maxSize cfg) 0 \<and>
         int (length (memoryCache (enforceMaxSize cfg s))) \<le> maxSize cfg"
proof (cases "int (length (memoryCache s)) > maxSize cfg")
  case False
  then show ?thesis by (simp add: enforceMaxSize_def)
next
  case True
  let ?m = "memoryCache s"
  let ?r = "nat (int (length ?m) - maxSize cfg)"
  let ?sorted = "sort_key (\<lambda>kv. ce_timestamp (snd kv)) ?m"
  let ?rm = "take ?r ?sorted"
  have ds: "distinct (map fst ?sorted)"
    using assms(1) by (simp add: distinct_map)
  have dk: "distinct (map fst ?rm)" using ds by (simp add: take_map[symmetric] distinct_take)
  have sub: "set (map fst ?rm) \<subseteq> fst ` set ?m"
    using set_take_subset[of ?r ?sorted] by auto
  have "?r \<le> length ?m" using assms(2) by linarith
  then have len: "length (map fst ?rm) = ?r" by simp
  from length_fold_delete[OF assms(1) dk sub] len
  have "length (fold AList.delete (map fst ?rm) ?m) + ?r = length ?m" by simp
  then have "int (length (fold AList.delete (map fst ?rm) ?m)) = maxSize cfg"
    using True assms(2) by linarith
  then show ?thesis using True by (simp add: enforceMaxSize_def Let_def fold_delete_keys)
qed

lemma set_delete_alist: "set (AList.delete k al) = {kv \<in> set al. fst kv \<noteq> k}"
  by (induction al) auto

lemma set_fold_delete:
  "set (fold AList.delete ks al) = {kv \<in> set al. fst kv \<notin> set ks}"
proof (induction ks arbitrary: al)
  case Nil
  then show ?case by simp
next
  case (Cons k ks)
  have "set (fold AList.delete ks (AList.delete k al)) = {kv \<in> set (AList.delete k al). fst kv \<notin> set ks}"
    by (rule Cons.IH)
  then show ?case by (auto simp: set_delete_alist)
qed

lemma eviction_takes_oldest:
  assumes "distinct (map fst (memoryCache s))"
    and "old \<in> set (memoryCache s)" and "old \<notin> set (memoryCache (enforceMaxSize cfg s))"
    and "kept \<in> set (memoryCache (enforceMaxSize cfg s))"
  shows "ce_timestamp (snd old) \<le> ce_timestamp (snd kept)"
proof (cases "int (length (memoryCache s)) > maxSize cfg")
  case False
  with assms(2,3) show ?thesis by (simp add: enforceMaxSize_def)
next
  case True
  define m where "m = memoryCache s"
  define r where "r = nat (int (length m) - maxSize cfg)"
  define f where "f = (\<lambda>kv::string \<times> CacheEntry. ce_timestamp (snd kv))"
  define sorted_entries where "sorted_entries = sort_key f m"
  define rm where "rm = take r sorted_entries"
  define rest where "rest = drop r sorted_entries"
  have res: "memoryCache (enforceMaxSize cfg s) = fold AList.delete (map fst rm) m"
    using True
    by (simp add: enforceMaxSize_def Let_def fold_delete_keys m_def r_def f_def sorted_entries_def rm_def)
  have surv: "set (memoryCache (enforceMaxSize cfg s)) = {kv \<in> set m. fst kv \<notin> fst ` set rm}"
    by (simp add: res set_fold_delete)
  have inj: "inj_on fst (set m)" using assms(1) by (simp add: distinct_map m_def)
  have split: "sorted_entries = rm @ rest" by (simp add: rm_def rest_def)
  have set_sorted: "set sorted_entries = set m" by (simp add: sorted_entries_def)
  have rm_sub: "set rm \<subseteq> set m" using split set_sorted by auto
  have old_m: "old \<in> set m" using assms(2) by (simp add: m_def)
  from old_m assms(3) surv have "fst old \<in> fst ` set rm" by simp
  then obtain kv0 where kv0: "kv0 \<in> set rm" and same: "fst kv0 = fst old" by auto
  from kv0 rm_sub have "kv0 \<in> set m" by blast
  from inj_onD[OF inj same this old_m] kv0 have old_rm: "old \<in> set rm" by simp
  from assms(4) surv have km: "kept \<in> set m" and nk: "fst kept \<notin> fst ` set rm" by simp_all
  from nk have "kept \<notin> set rm" by (rule contrapos_nn) (rule imageI)
  with km set_sorted split have kept_rest: "kept \<in> set rest" by auto
  have "sorted (map f sorted_entries)" by (simp add: sorted_entries_def)
  then have "sorted (map f rm @ map f rest)" by (simp add: split)
  then have "\<forall>x\<in>set (map f rm). \<forall>y\<in>set (map f rest). x \<le> y"
    by (simp add: sorted_append)
  with old_rm kept_rest have "f old \<le> f kept" by simp
  then show ?thesis by (simp add: f_def)
qed

lemma memory_set_keeps_bound:
  assumes "storage cfg = Memory" and "distinct (map fst (memoryCache s))" and "0 \<le> maxSize cfg"
  shows "int (length (memoryCache (cache_set cfg win now k response s))) \<le>
         max (maxSize cfg) (int (length (memoryCache s)))"
proof (cases "cache_enabled cfg \<and> shouldCache cfg response")
  case False
  then show ?thesis by (auto simp: cache_set_def)
next
  case True
  let ?entry = "\<lparr>ce_key = k, ce_data = response, ce_timestamp = now, ce_ttl = cache_ttl cfg,
                  ce_etag = resp_etag response, ce_lastModified = resp_last_modified response\<rparr>"
  have "distinct (map fst (memoryCache (setEntry cfg win k ?entry s)))"
    using assms(1,2) by (simp add: setEntry_def distinct_update)
  from memory_bound_enforced[OF this assms(3)]
  have "int (length (memoryCache (enforceMaxSize cfg (setEntry cfg win k ?entry s)))) \<le> maxSize cfg"
    by simp
  with True show ?thesis by (simp add: cache_set_def Let_def)
qed

text \<open>
  Claim C9 at its failing input: \<open>maxSize = 1\<close>, two cacheable responses stored at times
  1 and 2. With \<open>storage = Memory\<close> the older entry is evicted. With
  \<open>storage = LocalStorage\<close> (or \<open>IndexedDB\<close>) both entries stay and are served, because
  \<open>enforceMaxSize\<close> counts \<open>memoryCache\<close>, which these backends never fill.
\<close>

theorem maxSize_not_enforced_outside_memory:
  "fst (cache_get (cache_cfg_example Memory 1) True 3 ''/a''
     (cache_set (cache_cfg_example Memory 1) True 2 ''/b'' (response_example 200)
       (cache_set (cache_cfg_example Memory 1) True 1 ''/a'' (response_example 200) new_CacheManager))) = None \<and>
   fst (cache_get (cache_cfg_example LocalStorage 1) True 3 ''/a''
     (cache_set (cache_cfg_example LocalStorage 1) True 2 ''/b'' (response_example 200)
       (cache_set (cache_cfg_example LocalStorage 1) True 1 ''/a'' (response_example 200) new_CacheManager)))
     = Some (response_example 200) \<and>
   length (localStorage
     (cache_set (cache_cfg_example LocalStorage 1) True 2 ''/b'' (response_example 200)
       (cache_set (cache_cfg_example LocalStorage 1) True 1 ''/a'' (response_example 200) new_CacheManager))) = 2 \<and>
   length (indexedDB
     (cache_set (cache_cfg_example IndexedDB 1) True 2 ''/b'' (response_example 200)
       (cache_set (cache_cfg_example IndexedDB 1) True 1 ''/a'' (response_example 200) new_CacheManager))) = 2"
  by (simp add: cache_cfg_example_def shouldCache_def response_example_def new_CacheManager_def
      cache_set_def cache_get_def setEntry_def getEntry_def enforceMaxSize_def isExpired_def Let_def)

section \<open>Retry policy: the decision and the delay\<close>

text \<open>
  After a failed attempt the loop goes on to the next attempt, after a delay, exactly when
  \<open>attempt < maxRetries\<close> and \<open>shouldRetry\<close> holds of the error; otherwise it throws the
  error. A disabled handler makes one call and waits no delay.
\<close>

lemma retry_loop_step:
  assumes "attempt \<le> maxRetries cfg" and "requestFn attempt = Inl e"
  shows "retry_loop cfg requestFn rnd attempt lastError delays =
     (if attempt < maxRetries cfg \<and> shouldRetry cfg e
      then retry_loop cfg requestFn rnd (attempt + 1) (Some e)
             (delays @ [calculateDelay cfg (rnd attempt) attempt])
      else (Inl (Thrown e), delays))"
  using assms by (subst retry_loop.simps) auto

lemma executeWithRetry_disabled:
  "\<not> retry_enabled cfg \<Longrightarrow> snd (executeWithRetry cfg requestFn rnd) = []"
  by (simp add: executeWithRetry_def split: sum.splits)

text \<open>
  On every error whose response, if it has one, carries an HTTP status (at most 599), the
  code's condition is the specification's.
\<close>

lemma shouldRetry_agrees_up_to_599:
  assumes "\<And>r. err_response e = Some r \<Longrightarrow> resp_status r \<le> 599"
  shows "shouldRetry cfg e = spec_retryable cfg e"
proof (cases "err_response e")
  case None
  then show ?thesis by (simp add: shouldRetry_def spec_retryable_def split: option.splits)
next
  case (Some r)
  with assms have "resp_status r \<le> 599" by simp
  with Some show ?thesis by (auto simp: shouldRetry_def spec_retryable_def split: option.splits)
qed

lemma shouldRetry_599_and_404:
  "retryCondition cfg = None \<Longrightarrow>
   shouldRetry cfg (http_error 599) \<and> \<not> shouldRetry cfg (http_error 404)"
  by (simp add: shouldRetry_def http_error_def response_example_def)

text \<open>
  Claim C7 at its failing input: an error whose response has status 600, with no timeout
  code and no custom predicate. 600 lies outside \<open>{408, 429} \<union> [500, 599]\<close>, so the claim
  has it not retried; the code tests \<open>status >= 500\<close> with no upper bound, under the
  comment "Retry on server errors (5xx)", and retries it: the transport is called again
  after a delay.
\<close>

theorem status_600_is_retried:
  "shouldRetry retry_cfg_example (http_error 600) \<and>
   \<not> spec_retryable retry_cfg_example (http_error 600) \<and>
   executeWithRetry retry_cfg_example (fails_once 600) rnd_half = (Inr (response_example 200), [1050]) \<and>
   executeWithRetry retry_cfg_example (fails_once 404) rnd_half = (Inl (Thrown (http_error 404)), [])"
  by (simp add: retry_cfg_example_def shouldRetry_def spec_retryable_def http_error_def
      response_example_def executeWithRetry_def fails_once_def calculateDelay_def rnd_half_def Let_def)

text \<open>
  Claim C8. Without a custom delay function, and with \<open>u\<close> in [0, 1) the number that
  \<open>Math.random()\<close> returned, the delay of attempt \<open>n\<close> is
  \<open>min (baseDelay * 2^n + r) 30000\<close> with \<open>r = u * 0.1 * baseDelay * 2^n\<close>, which lies in
  \<open>[0, 0.1 * baseDelay * 2^n)\<close> for a positive base delay; so the delay lies between
  \<open>baseDelay * 2^n\<close> and \<open>baseDelay * 2^n * 1.1\<close>, both capped at 30000, for every \<open>n\<close>.
\<close>

theorem delay_bounds:
  assumes "retryDelayFunction cfg = None" and "0 \<le> u" and "u < 1" and "0 < retryDelay cfg"
  shows "calculateDelay cfg u n = min (retryDelay cfg * 2 ^ n + u * (0.1 * (retryDelay cfg * 2 ^ n))) 30000 \<and>
     0 \<le> u * (0.1 * (retryDelay cfg * 2 ^ n)) \<and>
     u * (0.1 * (retryDelay cfg * 2 ^ n)) < 0.1 * (retryDelay cfg * 2 ^ n) \<and>
     min (retryDelay cfg * 2 ^ n) 30000 \<le> calculateDelay cfg u n \<and>
     calculateDelay cfg u n \<le> min (retryDelay cfg * 2 ^ n * 1.1) 30000"
proof -
  let ?e = "retryDelay cfg * 2 ^ n"
  have epos: "0 < ?e" using assms(4) by simp
  have j0: "0 \<le> u * (0.1 * ?e)" using assms(2) epos by simp
  have "u * (0.1 * ?e) < 1 * (0.1 * ?e)"
    by (rule mult_strict_right_mono) (use assms(3) epos in simp_all)
  then have j1: "u * (0.1 * ?e) < 0.1 * ?e" by simp
  have d: "calculateDelay cfg u n = min (?e + u * (0.1 * ?e)) 30000"
    using assms(1) by (simp add: calculateDelay_def Let_def)
  have "?e \<le> ?e + u * (0.1 * ?e)" using j0 by linarith
  then have lo: "min ?e 30000 \<le> min (?e + u * (0.1 * ?e)) 30000"
    by (rule min.mono) (rule order_refl)
  have "?e + u * (0.1 * ?e) \<le> ?e * 1.1" using j1 by linarith
  then have hi: "min (?e + u * (0.1 * ?e)) 30000 \<le> min (?e * 1.1) 30000"
    by (rule min.mono) (rule order_refl)
  show ?thesis unfolding d using j0 j1 lo hi by blast
qed

theorem delay_bounds_witness:
  "calculateDelay retry_cfg_example (1 / 2) 3 = 8400 \<and>
   min (1000 * 2 ^ 3) 30000 \<le> calculateDelay retry_cfg_example (1 / 2) 3 \<and>
   calculateDelay retry_cfg_example (1 / 2) 3 \<le> min (1000 * 2 ^ 3 * 1.1) 30000 \<and>
   calculateDelay retry_cfg_example (1 / 2) 5 = 30000"
  using delay_bounds [where cfg = retry_cfg_example and u = "1 / 2" and n = 3]
    delay_bounds [where cfg = retry_cfg_example and u = "1 / 2" and n = 5]
  by (simp add: retry_cfg_example_def calculateDelay_def Let_def)

section \<open>Authentication: the header, and what a 401 sets off\<close>

text \<open>
  Claim C10. \<open>AuthHandler.addAuthHeader\<close> never throws: it always returns a request
  descriptor. When authentication is disabled, when no token is available (the lookup
  answers \<open>null\<close> or the empty string), or when the lookup itself throws, the descriptor
  it returns is the one it was given, with no \<open>Authorization\<close> header added.
\<close>

theorem addAuthHeader_never_throws:
  "(\<exists>config'. addAuthHeader cfg w config = Inr config') \<and>
   (\<not> auth_enabled cfg \<or> getToken cfg w = Inr None \<or> getToken cfg w = Inr (Some []) \<or>
      (\<exists>thrown_by_lookup. getToken cfg w = Inl thrown_by_lookup)
    \<longrightarrow> addAuthHeader cfg w config = Inr config)"
  by (cases "getToken cfg w") (auto simp: addAuthHeader_def)

theorem addAuthHeader_never_throws_witness:
  "addAuthHeader (auth_cfg_example\<lparr>auth_enabled := False\<rparr>) browser_example request_example
     = Inr request_example \<and>
   addAuthHeader auth_cfg_example (browser_example\<lparr>browser_store := []\<rparr>) request_example
     = Inr request_example \<and>
   addAuthHeader (auth_cfg_example\<lparr>getToken_hook := Some (Inl ''storage unavailable'')\<rparr>)
       browser_example request_example
     = Inr request_example"
  using addAuthHeader_never_throws [of "auth_cfg_example\<lparr>auth_enabled := False\<rparr>" browser_example request_example]
    addAuthHeader_never_throws [of auth_cfg_example "browser_example\<lparr>browser_store := []\<rparr>" request_example]
    addAuthHeader_never_throws [of "auth_cfg_example\<lparr>getToken_hook := Some (Inl ''storage unavailable'')\<rparr>"
      browser_example request_example]
  by (simp add: auth_cfg_example_def browser_example_def getToken_def)

text \<open>
  The token manager's \<open>addAuthHeader\<close> likewise returns the descriptor it was given when it
  holds no valid token.
\<close>

lemma tm_addAuthHeader_without_token:
  "fst (getValidToken now s) = None \<Longrightarrow> fst (tm_addAuthHeader now config s) = config"
  by (cases "getValidToken now s") (simp add: tm_addAuthHeader_def)

text \<open>Whatever a 401 sets off, \<open>handleAuthError\<close> returns the error it was given.\<close>

lemma handleAuthError_begin_returns_error:
  "fst (handleAuthError_begin cfg error h w) = Returned e \<Longrightarrow> e = error"
  by (auto simp: handleAuthError_begin_def split: option.splits if_splits prod.splits progress.splits)

lemma handleAuthError_resume_returns_error:
  "fst (handleAuthError_resume cfg error started_it res h w) = error"
  by (simp add: handleAuthError_resume_def split: prod.splits)

text \<open>
  \<open>handleError\<close> rejects with the error it was given when nothing on its way throws and no
  \<open>transformError\<close> is configured; a hook that throws makes it reject with what was thrown.
\<close>

lemma handleError_rejects_error:
  assumes "logger error = None" and "handleSpecificError ecfg error = None"
    and "call_hook (onError ecfg) error = None" and "transformError ecfg = None"
    and "showErrorNotifications ecfg \<Longrightarrow> showErrorNotification ecfg error = None"
  shows "handleError logger ecfg error = Rejects error"
  using assms by (simp add: handleError_def)

lemma handleError_default:
  "handleError logger_example error_cfg_example error = Rejects error"
  by (simp add: handleError_def handleSpecificError_def call_hook_def logger_example_def
      error_cfg_example_def split: option.splits)

lemma handleError_hook_throws:
  assumes "logger error = None" and "err_response error = Some r" and "400 \<le> resp_status r"
    and "resp_status r < 500" and "onClientError ecfg = Some hk" and "hk error = Some thrown_by_hook"
  shows "handleError logger ecfg error = Rejects thrown_by_hook"
  using assms by (simp add: handleError_def handleSpecificError_def call_hook_def)

text \<open>
  The interceptor settles as its last step settles on the error it was given, whatever
  \<open>handleAuthError\<close> did before.
\<close>

lemma interceptor_settles_on_error:
  "fst (response_error_interceptor cfg custom logger ecfg reply error h w) =
     (case custom of Some f \<Rightarrow> f error | None \<Rightarrow> handleError logger ecfg error)"
  by (simp add: response_error_interceptor_def Let_def split: prod.splits auth_step.splits)

text \<open>
  Under the default retry condition an error with a response of status 401 is retried
  only if it carries a timeout code; a plain \<open>Error\<close>, as the README's service interceptor
  throws on a 401, has no response and is retried.
\<close>

lemma shouldRetry_401:
  assumes "retryCondition rcfg = None" and "err_response error = Some r" and "resp_status r = 401"
  shows "shouldRetry rcfg error =
     (err_code error = Some ''ECONNABORTED'' \<or> err_code error = Some ''ETIMEDOUT'')"
  using assms by (simp add: shouldRetry_def)

lemma readme_interceptor_error_is_retried:
  "readme_error_interceptor bad_request_401 = Rejects (plain_error ''Authentication required'') \<and>
   shouldRetry retry_cfg_example (plain_error ''Authentication required'') \<and>
   executeWithRetry retry_cfg_example (rejects_once (plain_error ''Authentication required'')) rnd_half
     = (Inr (response_example 200), [1050])"
  by (simp add: readme_error_interceptor_def bad_request_401_def response_example_def plain_error_def
      shouldRetry_def retry_cfg_example_def executeWithRetry_def rejects_once_def calculateDelay_def
      rnd_half_def Let_def)

text \<open>
  Claim C1, as the code has it. The claim has the request replayed with the new token and
  the caller see only the success; the code has no replay. Amended: when a 401 arrives
  while authentication and refresh are enabled and no refresh is pending, and the refresh
  succeeds (a refresh token is at hand, the endpoint replies ok with a non-empty
  \<open>accessToken\<close> or, failing that, \<open>token\<close>), then the refresh is called once, the new
  token is stored through \<open>setToken\<close>, the flag and the pending promise are cleared, and
  the request is not replayed: the response interceptor settles as the service's own
  error interceptor, or without one \<open>handleError\<close>, settles on that same 401. With no
  custom interceptor, no \<open>transformError\<close>, and no logger, error hook or notification
  handler that throws, it rejects with the 401. The retry handler treats that rejection
  as any other error: under its default condition a 401 that carries no timeout code is
  not retried, and the caller receives the 401.
\<close>

theorem refresh_success_surfaces_401:
  assumes "auth_enabled cfg" and "refreshToken_cfg cfg = Some rc" and "rt_enabled rc"
    and "\<not> isRefreshing h"
    and "err_response error = Some r" and "resp_status r = 401"
    and "truthy_str (getRefreshToken cfg rc (w\<lparr>refreshCalls := refreshCalls w + 1\<rparr>))"
    and "reply = FetchReply True reply_accessToken reply_token"
    and "newToken = (if truthy_str reply_accessToken then reply_accessToken else reply_token)"
    and "truthy_str newToken"
  shows "fst (response_error_interceptor cfg custom logger ecfg reply error h w)
       = (case custom of Some f \<Rightarrow> f error | None \<Rightarrow> handleError logger ecfg error) \<and>
     fst (snd (response_error_interceptor cfg custom logger ecfg reply error h w))
       = \<lparr>isRefreshing = False, refreshPromise = None\<rparr> \<and>
     snd (snd (response_error_interceptor cfg custom logger ecfg reply error h w))
       = setToken cfg (the newToken)
           (snd (performTokenRefresh_end cfg reply (snd (performTokenRefresh_begin cfg w)))) \<and>
     refreshCalls (snd (snd (response_error_interceptor cfg custom logger ecfg reply error h w)))
       = refreshCalls w + 1 \<and>
     (custom = None \<and> logger error = None \<and> handleSpecificError ecfg error = None \<and>
      call_hook (onError ecfg) error = None \<and> transformError ecfg = None \<and>
      (showErrorNotifications ecfg \<longrightarrow> showErrorNotification ecfg error = None)
        \<longrightarrow> fst (response_error_interceptor cfg custom logger ecfg reply error h w) = Rejects error) \<and>
     (retryCondition rcfg = None \<and> err_code error \<noteq> Some ''ECONNABORTED'' \<and>
      err_code error \<noteq> Some ''ETIMEDOUT'' \<and> requestFn 0 = Inl error
        \<longrightarrow> executeWithRetry rcfg requestFn rnd = (Inl (Thrown error), []))"
proof -
  let ?finish = "case custom of Some f \<Rightarrow> f error | None \<Rightarrow> handleError logger ecfg error"
  let ?w1 = "snd (performTokenRefresh_begin cfg w)"
  have pb: "fst (performTokenRefresh_begin cfg w) = AwaitingFetch"
    using assms(2,7) by (simp add: performTokenRefresh_begin_def Let_def)
  have rb: "refreshToken_begin cfg h w =
      (Started AwaitingFetch, h\<lparr>isRefreshing := True, refreshPromise := Some (refreshCalls w)\<rparr>, ?w1)"
    using assms(4) pb
    by (cases "performTokenRefresh_begin cfg w")
       (simp add: refreshToken_begin_def split: option.splits)
  have hb: "handleAuthError_begin cfg error h w =
      (Awaiting True, h\<lparr>isRefreshing := True, refreshPromise := Some (refreshCalls w)\<rparr>, ?w1)"
    using assms(1,2,3,4,5,6) rb
    by (simp add: handleAuthError_begin_def handleUnauthorized_begin_def refresh_enabled_def)
  have pe: "fst (performTokenRefresh_end cfg reply w') = Inr newToken" for w'
    using assms(2,8,9) by (simp add: performTokenRefresh_end_def Let_def)
  have fin: "refreshToken_finally (h\<lparr>isRefreshing := True, refreshPromise := Some (refreshCalls w)\<rparr>)
      = \<lparr>isRefreshing = False, refreshPromise = None\<rparr>"
    by (cases h) (simp add: refreshToken_finally_def)
  have icp: "response_error_interceptor cfg custom logger ecfg reply error h w =
      (?finish, \<lparr>isRefreshing = False, refreshPromise = None\<rparr>,
       setToken cfg (the newToken) (snd (performTokenRefresh_end cfg reply ?w1)))"
    using pe[of ?w1] assms(10)
    by (cases "performTokenRefresh_end cfg reply ?w1")
       (simp add: response_error_interceptor_def hb handleAuthError_resume_def
         handleUnauthorized_resume_def fin Let_def)
  have calls: "refreshCalls (setToken cfg (the newToken) (snd (performTokenRefresh_end cfg reply ?w1)))
      = refreshCalls w + 1"
    using assms(2,7,8)
    by (simp add: setToken_def performTokenRefresh_end_def performTokenRefresh_begin_def
        log_event_def Let_def)
  have quiet: "?finish = Rejects error"
    if "custom = None" and "logger error = None" and "handleSpecificError ecfg error = None"
      and "call_hook (onError ecfg) error = None" and "transformError ecfg = None"
      and "showErrorNotifications ecfg \<longrightarrow> showErrorNotification ecfg error = None"
    using that by (simp add: handleError_def)
  have rt: "executeWithRetry rcfg requestFn rnd = (Inl (Thrown error), [])"
    if "retryCondition rcfg = None" and "err_code error \<noteq> Some ''ECONNABORTED''"
      and "err_code error \<noteq> Some ''ETIMEDOUT''" and "requestFn 0 = Inl error"
  proof -
    have "\<not> shouldRetry rcfg error"
      using that(1,2,3) assms(5,6) by (simp add: shouldRetry_def)
    then show ?thesis
      using that(4) by (simp add: executeWithRetry_def)
  qed
  show ?thesis
    unfolding icp fst_conv snd_conv using calls quiet rt by simp
qed

theorem refresh_success_surfaces_401_witness:
  "response_error_interceptor (auth_cfg_example\<lparr>has_setToken := True\<rparr>) None logger_example
       error_cfg_example (FetchReply True None (Some ''t2'')) bad_request_401 new_AuthHandler
       browser_example
     = (Rejects bad_request_401, new_AuthHandler,
        \<lparr>has_window = True, browser_store = [(''token'', ''old''), (''token_refresh'', ''r1'')],
         auth_log = [Fetch ''/auth/refresh'' ''r1'', SetTokenHook ''t2''], refreshCalls = 1\<rparr>) \<and>
   executeWithRetry retry_cfg_example (rejects_once bad_request_401) rnd_half
     = (Inl (Thrown bad_request_401), [])"
proof -
  have rc: "refreshToken_cfg (auth_cfg_example\<lparr>has_setToken := True\<rparr>) =
      Some \<lparr>rt_enabled = True, getRefreshToken_hook = None, refreshEndpoint = None,
        has_onRefreshSuccess = False, has_onRefreshFailed = False\<rparr>"
    by (simp add: auth_cfg_example_def)
  from refresh_success_surfaces_401 [where cfg = "auth_cfg_example\<lparr>has_setToken := True\<rparr>"
      and h = new_AuthHandler and w = browser_example and error = bad_request_401
      and r = "response_example 401" and reply_accessToken = None and reply_token = "Some ''t2''"
      and newToken = "Some ''t2''" and reply = "FetchReply True None (Some ''t2'')"
      and custom = None and logger = logger_example and ecfg = error_cfg_example
      and rcfg = retry_cfg_example and requestFn = "rejects_once bad_request_401" and rnd = rnd_half,
      OF _ rc]
  show ?thesis
    by (cases "response_error_interceptor (auth_cfg_example\<lparr>has_setToken := True\<rparr>) None
         logger_example error_cfg_example (FetchReply True None (Some ''t2'')) bad_request_401
         new_AuthHandler browser_example")
       (simp add: auth_cfg_example_def browser_example_def new_AuthHandler_def bad_request_401_def
         response_example_def retry_cfg_example_def rejects_once_def getRefreshToken_def
         setToken_def performTokenRefresh_begin_def performTokenRefresh_end_def log_event_def
         logger_example_def error_cfg_example_def handleSpecificError_def call_hook_def
         showErrorNotification_def Let_def)
qed

text \<open>
  The claim fails where a replay would have succeeded: a 401 arrives, the endpoint answers
  the refresh with a new token, and a second transport call would return 200. The
  handler stores the new token, the interceptor rejects with the 401, the transport is
  called once and the caller gets the 401.
\<close>

theorem refresh_success_still_rejects_401:
  "response_error_interceptor auth_cfg_example None logger_example error_cfg_example
       (FetchReply True (Some ''new'') None) (http_error 401) new_AuthHandler browser_example
     = (Rejects (http_error 401), new_AuthHandler,
        \<lparr>has_window = True, browser_store = [(''token'', ''new''), (''token_refresh'', ''r1'')],
         auth_log = [Fetch ''/auth/refresh'' ''r1''], refreshCalls = 1\<rparr>) \<and>
   executeWithRetry retry_cfg_example (fails_once 401) rnd_half = (Inl (Thrown (http_error 401)), [])"
  by (simp add: response_error_interceptor_def handleAuthError_begin_def handleAuthError_resume_def
      handleUnauthorized_begin_def handleUnauthorized_resume_def refreshToken_begin_def
      performTokenRefresh_begin_def performTokenRefresh_end_def
      refreshToken_finally_def refresh_enabled_def getRefreshToken_def setToken_def log_event_def
      handleError_def handleSpecificError_def call_hook_def logger_example_def error_cfg_example_def
      auth_cfg_example_def browser_example_def new_AuthHandler_def http_error_def
      response_example_def executeWithRetry_def retry_cfg_example_def fails_once_def
      shouldRetry_def Let_def)

text \<open>What holds of the single flight: a trigger that finds a refresh pending starts none.\<close>

lemma pending_refresh_not_restarted:
  "isRefreshing h \<Longrightarrow>
   refreshCalls (snd (snd (handleUnauthorized_begin cfg h w))) = refreshCalls w \<and>
   fst (snd (handleUnauthorized_begin cfg h w)) = h"
  by (simp add: handleUnauthorized_begin_def tokenExpired_def removeToken_def log_event_def)

text \<open>The flag and the promise are cleared however the refresh ends.\<close>

lemma refresh_flag_released:
  "fst (handleUnauthorized_resume cfg True res h w) = \<lparr>isRefreshing = False, refreshPromise = None\<rparr>"
  by (cases h)
     (auto simp: handleUnauthorized_resume_def refreshToken_finally_def Let_def split: sum.splits)

lemma refresh_flag_released_at_once:
  "\<not> isRefreshing h \<Longrightarrow> fst (handleUnauthorized_begin cfg h w) = Done \<Longrightarrow>
   \<not> isRefreshing (fst (snd (handleUnauthorized_begin cfg h w)))"
  by (auto simp: handleUnauthorized_begin_def refreshToken_begin_def handleUnauthorized_resume_def
        refreshToken_finally_def Let_def
      split: if_splits prod.splits option.splits refresh_call.splits pending.splits sum.splits)

text \<open>\<open>handleUnauthorized\<close> calls \<open>refreshToken()\<close> only when no refresh is pending, so the
  branch of \<open>refreshToken()\<close> that hands out the pending promise is never taken from it.\<close>

lemma handleUnauthorized_never_joins:
  "fst (handleUnauthorized_begin cfg h w) \<noteq> Suspended False"
  by (auto simp: handleUnauthorized_begin_def refreshToken_begin_def Let_def
      split: if_splits prod.splits option.splits refresh_call.splits pending.splits)

text \<open>
  Claim C5 at its failing input: a first 401 starts the refresh and waits for the
  endpoint; a second 401 arrives meanwhile. The second handler does not wait for the
  pending refresh: it runs to its end at once, on the token-expired path, and removes the
  stored access token while the refresh is still in flight (or, with an
  \<open>onTokenExpired\<close> hook, calls that hook). No second refresh call is made.
\<close>

theorem concurrent_401_does_not_await_refresh:
  "handleUnauthorized_begin auth_cfg_example new_AuthHandler browser_example
     = (Suspended True, \<lparr>isRefreshing = True, refreshPromise = Some 0\<rparr>,
        \<lparr>has_window = True, browser_store = [(''token'', ''old''), (''token_refresh'', ''r1'')],
         auth_log = [Fetch ''/auth/refresh'' ''r1''], refreshCalls = 1\<rparr>) \<and>
   handleUnauthorized_begin auth_cfg_example \<lparr>isRefreshing = True, refreshPromise = Some 0\<rparr>
        \<lparr>has_window = True, browser_store = [(''token'', ''old''), (''token_refresh'', ''r1'')],
         auth_log = [Fetch ''/auth/refresh'' ''r1''], refreshCalls = 1\<rparr>
     = (Done, \<lparr>isRefreshing = True, refreshPromise = Some 0\<rparr>,
        \<lparr>has_window = True, browser_store = [(''token_refresh'', ''r1'')],
         auth_log = [Fetch ''/auth/refresh'' ''r1''], refreshCalls = 1\<rparr>) \<and>
   handleUnauthorized_begin (auth_cfg_example\<lparr>has_onTokenExpired := True\<rparr>)
        \<lparr>isRefreshing = True, refreshPromise = Some 0\<rparr>
        \<lparr>has_window = True, browser_store = [(''token'', ''old''), (''token_refresh'', ''r1'')],
         auth_log = [Fetch ''/auth/refresh'' ''r1''], refreshCalls = 1\<rparr>
     = (Done, \<lparr>isRefreshing = True, refreshPromise = Some 0\<rparr>,
        \<lparr>has_window = True, browser_store = [(''token'', ''old''), (''token_refresh'', ''r1'')],
         auth_log = [Fetch ''/auth/refresh'' ''r1'', OnTokenExpired], refreshCalls = 1\<rparr>)"
  by (simp add: handleUnauthorized_begin_def refreshToken_begin_def performTokenRefresh_begin_def
      refresh_enabled_def getRefreshToken_def tokenExpired_def removeToken_def log_event_def
      auth_cfg_example_def browser_example_def new_AuthHandler_def Let_def)

section \<open>Request manager: deduplication\<close>




lemma executeRequest_admitted:
  assumes "rm_enabled cfg" and "deduplication cfg"
    and "map_of (deduplicationMap s) (getRequestKey c) = None"
    and "int (length (pendingRequests s)) < maxConcurrentRequests cfg"
  shows "fst (executeRequest cfg now rid c s) = Observes (next_promise s)"
    and "transport_calls (snd (executeRequest cfg now rid c s)) = transport_calls s @ [(rid, c)]"
    and "map_of (deduplicationMap (snd (executeRequest cfg now rid c s))) (getRequestKey c) =
      Some \<lparr>pr_id = rid, pr_config = c, pr_promise = next_promise s, pr_timestamp = now\<rparr>"
  using assms by (simp_all add: executeRequest_def Let_def update_conv')




end
